theory Spec2Isabelle
  imports Complex_Main
begin

section \<open>Godview weather: zoom bands, layer lifecycle, prefetch queue, weather service\<close>

text \<open>
  A shallow embedding of the client-side weather interface
  (\<^verbatim>\<open>assets/interface/weather.interface.js\<close>, class \<^verbatim>\<open>WeatherInterface\<close>) and of the
  server-side weather service (class \<^verbatim>\<open>WeatherService\<close>).

  JavaScript numbers are modelled as reals: comparisons with the thresholds and the
  arithmetic on bounds then are exact. \<^verbatim>\<open>NaN\<close> is a value of its own where a
  computation of the source can produce it; infinities, the sign of zero and the rounding
  of doubles are outside the model.
\<close>

subsection \<open>Zoom categories\<close>

datatype ZoomCategory = GLOBAL | REGIONAL | LOCAL

record zoom_range =
  zmin :: real
  zmax :: real

text \<open>\<^verbatim>\<open>static zoomLevels = { GLOBAL: {min: 0, max: 3}, REGIONAL: {min: 3, max: 8}, LOCAL: {min: 8, max: 22} }\<close>\<close>

fun zoomLevels :: "ZoomCategory \<Rightarrow> zoom_range" where
  "zoomLevels GLOBAL = \<lparr>zmin = 0, zmax = 3\<rparr>"
| "zoomLevels REGIONAL = \<lparr>zmin = 3, zmax = 8\<rparr>"
| "zoomLevels LOCAL = \<lparr>zmin = 8, zmax = 22\<rparr>"

text \<open>
  \<^verbatim>\<open>
  static getZoomCategory(zoom) {
      if (zoom >= this.zoomLevels.LOCAL.min) return 'LOCAL';
      if (zoom >= this.zoomLevels.REGIONAL.min) return 'REGIONAL';
      return 'GLOBAL';
  }
  \<close>
\<close>

definition getZoomCategory :: "real \<Rightarrow> ZoomCategory" where
  "getZoomCategory zoom =
     (if zoom \<ge> zmin (zoomLevels LOCAL) then LOCAL
      else if zoom \<ge> zmin (zoomLevels REGIONAL) then REGIONAL
      else GLOBAL)"

text \<open>How local a category is: the order in which zooming in passes through them.\<close>

fun localness :: "ZoomCategory \<Rightarrow> nat" where
  "localness GLOBAL = 0"
| "localness REGIONAL = 1"
| "localness LOCAL = 2"

text \<open>
  The band of a category, read off \<open>zoomLevels\<close>: half open, \<open>[min, max)\<close>, except that
  the last band, LOCAL, includes its upper end 22.
\<close>

definition in_band :: "ZoomCategory \<Rightarrow> real \<Rightarrow> bool" where
  "in_band c z =
     (zmin (zoomLevels c) \<le> z \<and>
      (if c = LOCAL then z \<le> zmax (zoomLevels c) else z < zmax (zoomLevels c)))"

subsection \<open>JavaScript values\<close>

text \<open>
  The values the weather service handles: the bodies the upstream APIs answer with
  (parsed JSON, or text) and the objects it builds from them. An object is an association
  list of its members in the order the object literal lists them. Strings are sequences of
  8-bit characters.
\<close>

datatype jsval =
    JUndefined
  | JNull
  | JBool bool
  | JNum real
  | JNaN
  | JPosInf
  | JNegInf
  | JStr string
  | JArr "jsval list"
  | JObj "(string \<times> jsval) list"

text \<open>What the service code can throw.\<close>

datatype error =
    TypeError                 \<comment> \<open>reading a member of \<^verbatim>\<open>undefined\<close> or \<^verbatim>\<open>null\<close>, calling what is no function\<close>
  | AxiosError                \<comment> \<open>no response: network failure\<close>
  | AxiosStatusError nat      \<comment> \<open>a response whose status is not 2xx\<close>
  | Error string              \<comment> \<open>\<^verbatim>\<open>throw new Error(msg)\<close>\<close>

definition bindE :: "error + 'a \<Rightarrow> ('a \<Rightarrow> error + 'b) \<Rightarrow> error + 'b" where
  "bindE m f = (case m of Inl e \<Rightarrow> Inl e | Inr v \<Rightarrow> f v)"

fun mapE :: "('a \<Rightarrow> error + 'b) \<Rightarrow> 'a list \<Rightarrow> error + 'b list" where
  "mapE f [] = Inr []"
| "mapE f (x # xs) = bindE (f x) (\<lambda>y. bindE (mapE f xs) (\<lambda>ys. Inr (y # ys)))"

text \<open>\<^verbatim>\<open>xs.map((x, i) => f(i, x))\<close>, the index counted from \<open>i\<close>.\<close>

fun mapiE :: "(nat \<Rightarrow> 'a \<Rightarrow> error + 'b) \<Rightarrow> nat \<Rightarrow> 'a list \<Rightarrow> error + 'b list" where
  "mapiE f i [] = Inr []"
| "mapiE f i (x # xs) = bindE (f i x) (\<lambda>y. bindE (mapiE f (Suc i) xs) (\<lambda>ys. Inr (y # ys)))"

text \<open>Truthiness: \<^verbatim>\<open>if (v)\<close>, \<^verbatim>\<open>!v\<close>, \<^verbatim>\<open>v || w\<close>, \<^verbatim>\<open>v && w\<close>.\<close>

fun truthy :: "jsval \<Rightarrow> bool" where
  "truthy JUndefined = False"
| "truthy JNull = False"
| "truthy (JBool b) = b"
| "truthy (JNum x) = (x \<noteq> 0)"
| "truthy JNaN = False"
| "truthy (JStr s) = (s \<noteq> [])"
| "truthy _ = True"

definition js_or :: "jsval \<Rightarrow> jsval \<Rightarrow> jsval" where
  "js_or v w = (if truthy v then v else w)"

fun isArray :: "jsval \<Rightarrow> bool" where
  "isArray (JArr xs) = True"
| "isArray _ = False"

subsubsection \<open>Decimal numerals\<close>

definition digit_char :: "nat \<Rightarrow> char" where
  "digit_char d = char_of (48 + d)"

fun show_nat :: "nat \<Rightarrow> string" where
  "show_nat n = (if n < 10 then [digit_char n] else show_nat (n div 10) @ [digit_char (n mod 10)])"

definition is_digit :: "char \<Rightarrow> bool" where
  "is_digit c = (c \<in> set ''0123456789'')"

definition digit_val :: "char \<Rightarrow> nat" where
  "digit_val c = of_char c - 48"

definition digits_val :: "string \<Rightarrow> nat" where
  "digits_val ds = foldl (\<lambda>a c. 10 * a + digit_val c) 0 ds"

text \<open>
  White space as \<^verbatim>\<open>String.prototype.trim\<close> and the numeric parsers see it, among 8-bit
  characters: tab, line feed, vertical tab, form feed, carriage return, space and the
  no-break space.
\<close>

definition is_space :: "char \<Rightarrow> bool" where
  "is_space c = (of_char c \<in> set [9, 10, 11, 12, 13, 32, 160 :: nat])"

definition trimStart :: "string \<Rightarrow> string" where
  "trimStart s = dropWhile is_space s"

definition trim :: "string \<Rightarrow> string" where
  "trim s = rev (dropWhile is_space (rev (dropWhile is_space s)))"

text \<open>
  The longest prefix of \<open>s\<close> that is a \<^verbatim>\<open>StrDecimalLiteral\<close> (sign, digits, fraction,
  exponent, or \<^verbatim>\<open>Infinity\<close>), as a number, and what follows it; \<open>JNaN\<close> when no prefix
  is one.
\<close>

definition scale10 :: "real \<Rightarrow> int \<Rightarrow> real" where
  "scale10 m e = (if e \<ge> 0 then m * 10 ^ nat e else m / 10 ^ nat (- e))"

definition parse_exponent :: "string \<Rightarrow> int \<times> string" where
  "parse_exponent s =
     (case s of
        c # r \<Rightarrow>
          (if c = CHR ''e'' \<or> c = CHR ''E'' then
             (let (neg, r') =
                    (case r of
                       d # t \<Rightarrow> (if d = CHR ''-'' then (True, t)
                                 else if d = CHR ''+'' then (False, t) else (False, r))
                     | [] \<Rightarrow> (False, r));
                  ds = takeWhile is_digit r'
              in if ds = [] then (0, s)
                 else ((if neg then - int (digits_val ds) else int (digits_val ds)),
                       dropWhile is_digit r'))
           else (0, s))
      | [] \<Rightarrow> (0, s))"

definition parse_decimal :: "string \<Rightarrow> jsval \<times> string" where
  "parse_decimal s =
     (let (neg, r1) =
            (case s of
               c # t \<Rightarrow> (if c = CHR ''-'' then (True, t)
                         else if c = CHR ''+'' then (False, t) else (False, s))
             | [] \<Rightarrow> (False, s))
      in if take 8 r1 = ''Infinity'' then ((if neg then JNegInf else JPosInf), drop 8 r1)
         else
           (let ip = takeWhile is_digit r1;
                r2 = dropWhile is_digit r1;
                (fp, r3) =
                  (case r2 of
                     c # t \<Rightarrow> (if c = CHR ''.'' then (takeWhile is_digit t, dropWhile is_digit t)
                               else ([], r2))
                   | [] \<Rightarrow> ([], r2))
            in if ip = [] \<and> fp = [] then (JNaN, s)
               else
                 (let m = real (digits_val ip) + real (digits_val fp) / 10 ^ length fp;
                      (e, r4) = parse_exponent r3;
                      v = scale10 m e
                  in (JNum (if neg then - v else v), r4))))"

text \<open>\<^verbatim>\<open>parseFloat(s)\<close> of a string: leading white space is skipped.\<close>

definition parseFloat_str :: "string \<Rightarrow> jsval" where
  "parseFloat_str s = fst (parse_decimal (trimStart s))"

text \<open>
  \<^verbatim>\<open>parseFloat(v)\<close> where \<open>v\<close> is a string or \<^verbatim>\<open>undefined\<close> (a field of a split line, or a
  field past its end): \<^verbatim>\<open>undefined\<close> is read as the text \<^verbatim>\<open>"undefined"\<close>, no number.
\<close>

fun parseFloat :: "jsval \<Rightarrow> jsval" where
  "parseFloat (JStr s) = parseFloat_str s"
| "parseFloat (JNum x) = JNum x"
| "parseFloat JPosInf = JPosInf"
| "parseFloat JNegInf = JNegInf"
| "parseFloat _ = JNaN"

text \<open>
  \<^verbatim>\<open>Number(s)\<close> of a string: the whole trimmed text is a decimal literal, or empty (zero).
  Hexadecimal, octal and binary literals are outside the model.
\<close>

definition stringToNumber :: "string \<Rightarrow> jsval" where
  "stringToNumber s =
     (let t = trim s
      in if t = [] then JNum 0
         else (case parse_decimal t of (v, rest) \<Rightarrow> if rest = [] then v else JNaN))"

text \<open>\<^verbatim>\<open>ToNumber\<close>, as the operators \<^verbatim>\<open>*\<close> and \<^verbatim>\<open>>\<close> apply it to an operand.\<close>

fun toNumber :: "jsval \<Rightarrow> jsval" where
  "toNumber JUndefined = JNaN"
| "toNumber JNull = JNum 0"
| "toNumber (JBool b) = JNum (if b then 1 else 0)"
| "toNumber (JNum x) = JNum x"
| "toNumber JNaN = JNaN"
| "toNumber JPosInf = JPosInf"
| "toNumber JNegInf = JNegInf"
| "toNumber (JStr s) = stringToNumber s"
| "toNumber (JArr []) = JNum 0"
| "toNumber (JArr [x]) =
     (case x of
        JUndefined \<Rightarrow> JNum 0
      | JNull \<Rightarrow> JNum 0
      | JBool b \<Rightarrow> JNaN
      | JObj kvs \<Rightarrow> JNaN
      | _ \<Rightarrow> toNumber x)"
| "toNumber (JArr (x # y # zs)) = JNaN"
| "toNumber (JObj kvs) = JNaN"

text \<open>\<^verbatim>\<open>v * k\<close> for a finite number \<open>k > 0\<close>.\<close>

definition js_times :: "jsval \<Rightarrow> real \<Rightarrow> jsval" where
  "js_times v k =
     (case toNumber v of
        JNum x \<Rightarrow> JNum (x * k)
      | JPosInf \<Rightarrow> JPosInf
      | JNegInf \<Rightarrow> JNegInf
      | _ \<Rightarrow> JNaN)"

text \<open>\<^verbatim>\<open>v > 0\<close>\<close>

definition js_gt0 :: "jsval \<Rightarrow> bool" where
  "js_gt0 v = (case toNumber v of JNum x \<Rightarrow> x > 0 | JPosInf \<Rightarrow> True | _ \<Rightarrow> False)"

subsubsection \<open>Members\<close>

text \<open>
  \<^verbatim>\<open>v.k\<close> for the member names the service reads (none of them but \<^verbatim>\<open>length\<close> is a member
  of a string, an array or a number by inheritance): reading a member of \<^verbatim>\<open>undefined\<close> or
  \<^verbatim>\<open>null\<close> throws, a member an object does not have is \<^verbatim>\<open>undefined\<close>.
\<close>

fun getProp :: "jsval \<Rightarrow> string \<Rightarrow> error + jsval" where
  "getProp JUndefined k = Inl TypeError"
| "getProp JNull k = Inl TypeError"
| "getProp (JObj kvs) k = Inr (case map_of kvs k of Some v \<Rightarrow> v | None \<Rightarrow> JUndefined)"
| "getProp (JArr xs) k = Inr (if k = ''length'' then JNum (real (length xs)) else JUndefined)"
| "getProp (JStr s) k = Inr (if k = ''length'' then JNum (real (length s)) else JUndefined)"
| "getProp _ k = Inr JUndefined"

text \<open>\<^verbatim>\<open>v[i]\<close> for an index \<open>i\<close>.\<close>

fun getIndex :: "jsval \<Rightarrow> nat \<Rightarrow> error + jsval" where
  "getIndex JUndefined i = Inl TypeError"
| "getIndex JNull i = Inl TypeError"
| "getIndex (JArr xs) i = Inr (if i < length xs then xs ! i else JUndefined)"
| "getIndex (JStr s) i = Inr (if i < length s then JStr [s ! i] else JUndefined)"
| "getIndex (JObj kvs) i = Inr (case map_of kvs (show_nat i) of Some v \<Rightarrow> v | None \<Rightarrow> JUndefined)"
| "getIndex _ i = Inr JUndefined"

datatype step = P string | I nat

text \<open>A chain of member reads, \<^verbatim>\<open>data.weather[0].main\<close> being \<open>[P weather, I 0, P main]\<close>.\<close>

fun getPath :: "jsval \<Rightarrow> step list \<Rightarrow> error + jsval" where
  "getPath v [] = Inr v"
| "getPath v (P k # ks) = bindE (getProp v k) (\<lambda>w. getPath w ks)"
| "getPath v (I i # ks) = bindE (getIndex v i) (\<lambda>w. getPath w ks)"

text \<open>
  \<^verbatim>\<open>v.map(f)\<close>: of an array, the array of the results (the first throw stops it); of
  anything else a TypeError, there being no function \<^verbatim>\<open>map\<close> to call.
\<close>

fun jsMap :: "jsval \<Rightarrow> (jsval \<Rightarrow> error + jsval) \<Rightarrow> error + jsval" where
  "jsMap (JArr xs) f = bindE (mapE f xs) (\<lambda>ys. Inr (JArr ys))"
| "jsMap _ f = Inl TypeError"

fun jsMapi :: "jsval \<Rightarrow> (nat \<Rightarrow> jsval \<Rightarrow> error + jsval) \<Rightarrow> error + jsval" where
  "jsMapi (JArr xs) f = bindE (mapiE f 0 xs) (\<lambda>ys. Inr (JArr ys))"
| "jsMapi _ f = Inl TypeError"

subsection \<open>The weather service\<close>

text \<open>
  What the service takes from its JavaScript environment: the digits of a number
  (\<^verbatim>\<open>String(x)\<close>, as a template literal renders it), the time value of a date
  (\<^verbatim>\<open>new Date(v).getTime()\<close>, whose reading of a text that is not ISO 8601 is the
  engine's own) and the random draws (\<^verbatim>\<open>Math.random().toString(36)\<close>, the \<open>k\<close>-th one).
\<close>

record js_env =
  numStr :: "real \<Rightarrow> string"
  dateTime :: "jsval \<Rightarrow> jsval"
  random36 :: "nat \<Rightarrow> string"

fun join_comma :: "string list \<Rightarrow> string" where
  "join_comma [] = []"
| "join_comma [s] = s"
| "join_comma (s # t # ts) = s @ '','' @ join_comma (t # ts)"

text \<open>\<^verbatim>\<open>`${v}`\<close>: a value inside a template literal.\<close>

fun toStr :: "js_env \<Rightarrow> jsval \<Rightarrow> string" where
  "toStr env JUndefined = ''undefined''"
| "toStr env JNull = ''null''"
| "toStr env (JBool b) = (if b then ''true'' else ''false'')"
| "toStr env (JNum x) = numStr env x"
| "toStr env JNaN = ''NaN''"
| "toStr env JPosInf = ''Infinity''"
| "toStr env JNegInf = ''-Infinity''"
| "toStr env (JStr s) = s"
| "toStr env (JArr xs) =
     join_comma (map (\<lambda>x. if x = JUndefined \<or> x = JNull then [] else toStr env x) xs)"
| "toStr env (JObj kvs) = ''[object Object]''"

subsubsection \<open>The cache\<close>

text \<open>
  Modelled from the spec: the \<^verbatim>\<open>node-cache\<close> store behind \<^verbatim>\<open>weatherCache\<close> (a library, not
  code of the repository), "a TTL key/value store", "TTL default 1800s". An entry holds
  its value and the clock reading, in milliseconds, at which it expires (0: never);
  a lookup that finds an expired entry drops it and answers \<^verbatim>\<open>undefined\<close>.
\<close>

type_synonym node_cache = "string \<Rightarrow> (jsval \<times> nat) option"

definition stdTTL :: nat where
  "stdTTL = 1800"

definition cache_get :: "node_cache \<Rightarrow> string \<Rightarrow> nat \<Rightarrow> jsval \<times> node_cache" where
  "cache_get c k now =
     (case c k of
        None \<Rightarrow> (JUndefined, c)
      | Some (v, t) \<Rightarrow> if t \<noteq> 0 \<and> t < now then (JUndefined, c(k := None)) else (v, c))"

definition cache_set :: "node_cache \<Rightarrow> string \<Rightarrow> jsval \<Rightarrow> nat \<Rightarrow> nat \<Rightarrow> node_cache" where
  "cache_set c k v ttl now = c(k \<mapsto> (v, if ttl = 0 then 0 else now + ttl * 1000))"

subsubsection \<open>The upstream call\<close>

text \<open>
  What \<^verbatim>\<open>axios.get(url)\<close> meets: no response at all, or a response with a status and a
  body. The call throws unless the status is 2xx; otherwise \<^verbatim>\<open>response.data\<close> is the body.
\<close>

datatype http_result = NoResponse | Response nat jsval

fun axios_get :: "http_result \<Rightarrow> error + jsval" where
  "axios_get NoResponse = Inl AxiosError"
| "axios_get (Response status body) =
     (if 200 \<le> status \<and> status < 300 then Inr body else Inl (AxiosStatusError status))"

text \<open>
  The state of the service module: the cache, and the log of the URLs requested from
  upstream so far (the latest last), which is what a test's spy on \<^verbatim>\<open>axios.get\<close> records.
\<close>

record service_state =
  weatherCache :: node_cache
  requests :: "string list"

subsubsection \<open>Normalizers\<close>

text \<open>
  \<^verbatim>\<open>
  normalizeOpenWeatherData(data) {
    return {
      type: 'current_weather',
      location: { name: data.name, country: data.sys.country,
                  lat: data.coord.lat, lon: data.coord.lon },
      weather: { main: data.weather[0].main, description: data.weather[0].description,
                 icon: data.weather[0].icon, temperature: data.main.temp,
                 feels_like: data.main.feels_like, humidity: data.main.humidity,
                 pressure: data.main.pressure, wind_speed: data.wind.speed,
                 wind_direction: data.wind.deg, clouds: data.clouds.all,
                 visibility: data.visibility },
      timestamp: data.dt * 1000, sunrise: data.sys.sunrise * 1000,
      sunset: data.sys.sunset * 1000 };
  }
  \<close>
\<close>

definition normalizeOpenWeatherData :: "jsval \<Rightarrow> error + jsval" where
  "normalizeOpenWeatherData data =
     bindE (getPath data [P ''name'']) (\<lambda>name.
     bindE (getPath data [P ''sys'', P ''country'']) (\<lambda>country.
     bindE (getPath data [P ''coord'', P ''lat'']) (\<lambda>lat.
     bindE (getPath data [P ''coord'', P ''lon'']) (\<lambda>lon.
     bindE (getPath data [P ''weather'', I 0, P ''main'']) (\<lambda>main.
     bindE (getPath data [P ''weather'', I 0, P ''description'']) (\<lambda>description.
     bindE (getPath data [P ''weather'', I 0, P ''icon'']) (\<lambda>icon.
     bindE (getPath data [P ''main'', P ''temp'']) (\<lambda>temp.
     bindE (getPath data [P ''main'', P ''feels_like'']) (\<lambda>feels_like.
     bindE (getPath data [P ''main'', P ''humidity'']) (\<lambda>humidity.
     bindE (getPath data [P ''main'', P ''pressure'']) (\<lambda>pressure.
     bindE (getPath data [P ''wind'', P ''speed'']) (\<lambda>speed.
     bindE (getPath data [P ''wind'', P ''deg'']) (\<lambda>deg.
     bindE (getPath data [P ''clouds'', P ''all'']) (\<lambda>clouds.
     bindE (getPath data [P ''visibility'']) (\<lambda>visibility.
     bindE (getPath data [P ''dt'']) (\<lambda>dt.
     bindE (getPath data [P ''sys'', P ''sunrise'']) (\<lambda>sunrise.
     bindE (getPath data [P ''sys'', P ''sunset'']) (\<lambda>sunset.
       Inr (JObj
         [(''type'', JStr ''current_weather''),
          (''location'', JObj
             [(''name'', name), (''country'', country), (''lat'', lat), (''lon'', lon)]),
          (''weather'', JObj
             [(''main'', main), (''description'', description), (''icon'', icon),
              (''temperature'', temp), (''feels_like'', feels_like),
              (''humidity'', humidity), (''pressure'', pressure),
              (''wind_speed'', speed), (''wind_direction'', deg),
              (''clouds'', clouds), (''visibility'', visibility)]),
          (''timestamp'', js_times dt 1000),
          (''sunrise'', js_times sunrise 1000),
          (''sunset'', js_times sunset 1000)])))))))))))))))))))"

text \<open>
  \<^verbatim>\<open>getFakeWeatherData(lat, lon)\<close>: the placeholder. \<open>clock k\<close> is the \<open>k\<close>-th reading of
  \<^verbatim>\<open>Date.now()\<close> it takes (timestamp, sunrise, sunset).
\<close>

definition getFakeWeatherData :: "(nat \<Rightarrow> nat) \<Rightarrow> jsval \<Rightarrow> jsval \<Rightarrow> jsval" where
  "getFakeWeatherData clock lat lon =
     JObj
       [(''type'', JStr ''current_weather''),
        (''location'', JObj
           [(''name'', JStr ''Test Location''), (''country'', JStr ''Test Country''),
            (''lat'', lat), (''lon'', lon)]),
        (''weather'', JObj
           [(''main'', JStr ''Clear''), (''description'', JStr ''clear sky''),
            (''icon'', JStr ''01d''), (''temperature'', JNum 25), (''feels_like'', JNum 26),
            (''humidity'', JNum 60), (''pressure'', JNum 1015), (''wind_speed'', JNum 5),
            (''wind_direction'', JNum 90), (''clouds'', JNum 20),
            (''visibility'', JNum 10000), (''rain'', JObj [(''1h'', JNum 0)])]),
        (''timestamp'', JNum (real (clock 0))),
        (''sunrise'', JNum (real (clock 1) - 21600000)),
        (''sunset'', JNum (real (clock 2) + 21600000))]"

subsubsection \<open>Current weather\<close>

definition current_weather_key :: "js_env \<Rightarrow> jsval \<Rightarrow> jsval \<Rightarrow> string" where
  "current_weather_key env lat lon = ''current_weather_'' @ toStr env lat @ ''_'' @ toStr env lon"

definition current_weather_url :: "js_env \<Rightarrow> jsval \<Rightarrow> jsval \<Rightarrow> jsval \<Rightarrow> string" where
  "current_weather_url env openWeatherMapKey lat lon =
     ''https://api.openweathermap.org/data/2.5/weather?lat='' @ toStr env lat @
     ''&lon='' @ toStr env lon @ ''&appid='' @ toStr env openWeatherMapKey @ ''&units=metric''"

text \<open>
  \<^verbatim>\<open>
  async getCurrentWeather(lat, lon) {
    const cacheKey = `current_weather_${lat}_${lon}`;
    const cachedData = weatherCache.get(cacheKey);
    if (cachedData) { return cachedData; }
    try {
      const response = await axios.get(`https://api.openweathermap.org/...`);
      const normalizedData = this.normalizeOpenWeatherData(response.data);
      weatherCache.set(cacheKey, normalizedData);
      return normalizedData;
    } catch (error) {
      return this.getFakeWeatherData(lat, lon);
    }
  }
  \<close>
  \<open>upstream\<close> is what the network answers to a URL during this call; \<open>clock k\<close> is the
  \<open>k\<close>-th reading of the clock during the call (the cache lookup, then either the cache
  store or the three readings of the placeholder). The result is \<open>Inl\<close> when the call
  rejects.
\<close>

definition getCurrentWeather ::
  "js_env \<Rightarrow> jsval \<Rightarrow> (nat \<Rightarrow> nat) \<Rightarrow> (string \<Rightarrow> http_result) \<Rightarrow> jsval \<Rightarrow> jsval \<Rightarrow>
   service_state \<Rightarrow> (error + jsval) \<times> service_state" where
  "getCurrentWeather env openWeatherMapKey clock upstream lat lon s =
     (let cacheKey = current_weather_key env lat lon;
          (cachedData, c1) = cache_get (weatherCache s) cacheKey (clock 0);
          s1 = s\<lparr>weatherCache := c1\<rparr>
      in if truthy cachedData then (Inr cachedData, s1)
         else
           (let url = current_weather_url env openWeatherMapKey lat lon;
                s2 = s1\<lparr>requests := requests s1 @ [url]\<rparr>
            in case bindE (axios_get (upstream url)) normalizeOpenWeatherData of
                 Inr normalizedData \<Rightarrow>
                   (Inr normalizedData,
                    s2\<lparr>weatherCache :=
                         cache_set (weatherCache s2) cacheKey normalizedData stdTTL (clock 1)\<rparr>)
               | Inl e \<Rightarrow>
                   (Inr (getFakeWeatherData (\<lambda>k. clock (Suc k)) lat lon), s2)))"

subsubsection \<open>Hurricanes\<close>

text \<open>
  \<^verbatim>\<open>
  normalizeHurricaneData(data) {
    if (!data.activeStorms || !Array.isArray(data.activeStorms)) { return []; }
    return data.activeStorms.map(storm => ({
      type: 'hurricane', id: storm.id || `hurricane-${Date.now()}`, name: storm.name,
      category: storm.classification || 'Unknown',
      location: { lat: storm.lat, lon: storm.lon },
      movement: { direction: storm.movement.direction, speed: storm.movement.speed },
      pressure: storm.pressure, wind_speed: storm.windSpeed,
      path: storm.track.map(point => ({ lat: point.lat, lon: point.lon,
        timestamp: new Date(point.time).getTime(), wind_speed: point.windSpeed })),
      forecast: storm.forecast.map(point => ({ lat: point.lat, lon: point.lon,
        timestamp: new Date(point.time).getTime(), wind_speed: point.windSpeed,
        category: point.category })) }));
  }
  \<close>
\<close>

definition normalizeTrackPoint :: "js_env \<Rightarrow> jsval \<Rightarrow> error + jsval" where
  "normalizeTrackPoint env point =
     bindE (getProp point ''lat'') (\<lambda>lat.
     bindE (getProp point ''lon'') (\<lambda>lon.
     bindE (getProp point ''time'') (\<lambda>time.
     bindE (getProp point ''windSpeed'') (\<lambda>windSpeed.
       Inr (JObj [(''lat'', lat), (''lon'', lon), (''timestamp'', dateTime env time),
                  (''wind_speed'', windSpeed)])))))"

definition normalizeForecastPoint :: "js_env \<Rightarrow> jsval \<Rightarrow> error + jsval" where
  "normalizeForecastPoint env point =
     bindE (getProp point ''lat'') (\<lambda>lat.
     bindE (getProp point ''lon'') (\<lambda>lon.
     bindE (getProp point ''time'') (\<lambda>time.
     bindE (getProp point ''windSpeed'') (\<lambda>windSpeed.
     bindE (getProp point ''category'') (\<lambda>category.
       Inr (JObj [(''lat'', lat), (''lon'', lon), (''timestamp'', dateTime env time),
                  (''wind_speed'', windSpeed), (''category'', category)]))))))"

text \<open>One storm; \<open>now\<close> is the reading of \<^verbatim>\<open>Date.now()\<close> its fallback id would take.\<close>

definition normalizeStorm :: "js_env \<Rightarrow> nat \<Rightarrow> jsval \<Rightarrow> error + jsval" where
  "normalizeStorm env now storm =
     bindE (getProp storm ''id'') (\<lambda>sid.
     bindE (getProp storm ''name'') (\<lambda>name.
     bindE (getProp storm ''classification'') (\<lambda>classification.
     bindE (getProp storm ''lat'') (\<lambda>lat.
     bindE (getProp storm ''lon'') (\<lambda>lon.
     bindE (getPath storm [P ''movement'', P ''direction'']) (\<lambda>direction.
     bindE (getPath storm [P ''movement'', P ''speed'']) (\<lambda>speed.
     bindE (getProp storm ''pressure'') (\<lambda>pressure.
     bindE (getProp storm ''windSpeed'') (\<lambda>windSpeed.
     bindE (getProp storm ''track'') (\<lambda>track.
     bindE (jsMap track (normalizeTrackPoint env)) (\<lambda>path.
     bindE (getProp storm ''forecast'') (\<lambda>fc.
     bindE (jsMap fc (normalizeForecastPoint env)) (\<lambda>forecast.
       Inr (JObj
         [(''type'', JStr ''hurricane''),
          (''id'', js_or sid (JStr (''hurricane-'' @ show_nat now))),
          (''name'', name),
          (''category'', js_or classification (JStr ''Unknown'')),
          (''location'', JObj [(''lat'', lat), (''lon'', lon)]),
          (''movement'', JObj [(''direction'', direction), (''speed'', speed)]),
          (''pressure'', pressure),
          (''wind_speed'', windSpeed),
          (''path'', path),
          (''forecast'', forecast)]))))))))))))))"

text \<open>\<open>clock i\<close> is the reading of the clock while storm \<open>i\<close> is mapped.\<close>

definition normalizeHurricaneData :: "js_env \<Rightarrow> (nat \<Rightarrow> nat) \<Rightarrow> jsval \<Rightarrow> error + jsval" where
  "normalizeHurricaneData env clock data =
     bindE (getProp data ''activeStorms'') (\<lambda>activeStorms.
       if \<not> truthy activeStorms \<or> \<not> isArray activeStorms then Inr (JArr [])
       else jsMapi activeStorms (\<lambda>i storm. normalizeStorm env (clock i) storm))"

subsubsection \<open>Natural disasters\<close>

text \<open>
  \<^verbatim>\<open>
  normalizeDisasterData(data) {
    if (!data.events || !Array.isArray(data.events)) { return []; }
    return data.events.map(event => {
      const geometry = event.geometry && event.geometry.length > 0 ? event.geometry[0] : null;
      return {
        type: 'natural_disaster', id: event.id, title: event.title,
        description: event.description || '', category: event.categories[0].title,
        location: geometry ? { lat: geometry.coordinates[1], lon: geometry.coordinates[0] } : null,
        timestamp: geometry ? new Date(geometry.date).getTime() : null,
        sources: event.sources.map(source => ({ id: source.id, url: source.url })) };
    });
  }
  \<close>
\<close>

definition normalizeSource :: "jsval \<Rightarrow> error + jsval" where
  "normalizeSource source =
     bindE (getProp source ''id'') (\<lambda>sid.
     bindE (getProp source ''url'') (\<lambda>url.
       Inr (JObj [(''id'', sid), (''url'', url)])))"

definition firstGeometry :: "jsval \<Rightarrow> error + jsval" where
  "firstGeometry event =
     bindE (getProp event ''geometry'') (\<lambda>g.
       if \<not> truthy g then Inr JNull
       else bindE (getProp g ''length'') (\<lambda>len.
              if js_gt0 len then getIndex g 0 else Inr JNull))"

definition normalizeEvent :: "js_env \<Rightarrow> jsval \<Rightarrow> error + jsval" where
  "normalizeEvent env event =
     bindE (firstGeometry event) (\<lambda>geometry.
     bindE (getProp event ''id'') (\<lambda>eid.
     bindE (getProp event ''title'') (\<lambda>title.
     bindE (getProp event ''description'') (\<lambda>description.
     bindE (getPath event [P ''categories'', I 0, P ''title'']) (\<lambda>category.
     bindE (if truthy geometry
            then bindE (getPath geometry [P ''coordinates'', I 1]) (\<lambda>lat.
                 bindE (getPath geometry [P ''coordinates'', I 0]) (\<lambda>lon.
                   Inr (JObj [(''lat'', lat), (''lon'', lon)])))
            else Inr JNull) (\<lambda>location.
     bindE (if truthy geometry
            then bindE (getProp geometry ''date'') (\<lambda>d. Inr (dateTime env d))
            else Inr JNull) (\<lambda>timestamp.
     bindE (getProp event ''sources'') (\<lambda>srcs.
     bindE (jsMap srcs normalizeSource) (\<lambda>sources.
       Inr (JObj
         [(''type'', JStr ''natural_disaster''),
          (''id'', eid),
          (''title'', title),
          (''description'', js_or description (JStr [])),
          (''category'', category),
          (''location'', location),
          (''timestamp'', timestamp),
          (''sources'', sources)]))))))))))"

definition normalizeDisasterData :: "js_env \<Rightarrow> jsval \<Rightarrow> error + jsval" where
  "normalizeDisasterData env data =
     bindE (getProp data ''events'') (\<lambda>events.
       if \<not> truthy events \<or> \<not> isArray events then Inr (JArr [])
       else jsMap events (normalizeEvent env))"

subsubsection \<open>Wildfires\<close>

text \<open>\<^verbatim>\<open>s.split(c)\<close> for a separator of one character: the empty text has one, empty, field.\<close>

fun split_on :: "char \<Rightarrow> string \<Rightarrow> string list" where
  "split_on c [] = [[]]"
| "split_on c (x # xs) =
     (if x = c then [] # split_on c xs
      else (case split_on c xs of
              [] \<Rightarrow> [[x]]
            | w # ws \<Rightarrow> (x # w) # ws))"

text \<open>\<^verbatim>\<open>xs.indexOf(x)\<close>; \<open>None\<close> is \<open>-1\<close>.\<close>

fun indexOf :: "string list \<Rightarrow> string \<Rightarrow> nat option" where
  "indexOf [] x = None"
| "indexOf (y # ys) x = (if y = x then Some 0 else map_option Suc (indexOf ys x))"

text \<open>\<^verbatim>\<open>values[i]\<close>: \<^verbatim>\<open>undefined\<close> at \<open>-1\<close> and past the end.\<close>

definition at_index :: "string list \<Rightarrow> nat option \<Rightarrow> jsval" where
  "at_index values i =
     (case i of
        None \<Rightarrow> JUndefined
      | Some n \<Rightarrow> if n < length values then JStr (values ! n) else JUndefined)"

text \<open>\<^verbatim>\<open>s.substring(a, b)\<close> for \<open>a \<le> b\<close>.\<close>

definition substring :: "nat \<Rightarrow> nat \<Rightarrow> string \<Rightarrow> string" where
  "substring a b s = take (b - a) (drop a s)"

definition newline :: char where
  "newline = CHR 0x0A"

record wildfire_columns =
  latIndex :: "nat option"
  lonIndex :: "nat option"
  dateIndex :: "nat option"
  timeIndex :: "nat option"
  brightnessIndex :: "nat option"
  confidenceIndex :: "nat option"

definition wildfire_columns_of :: "string list \<Rightarrow> wildfire_columns" where
  "wildfire_columns_of headers =
     \<lparr>latIndex = indexOf headers ''latitude'',
      lonIndex = indexOf headers ''longitude'',
      dateIndex = indexOf headers ''acq_date'',
      timeIndex = indexOf headers ''acq_time'',
      brightnessIndex = indexOf headers ''bright_ti4'',
      confidenceIndex = indexOf headers ''confidence''\<rparr>"

text \<open>
  The text handed to \<^verbatim>\<open>new Date\<close>:
  \<^verbatim>\<open>`${values[dateIndex]} ${values[timeIndex].substring(0, 2)}:${values[timeIndex].substring(2, 4)}`\<close>
\<close>

definition wildfire_date_text :: "js_env \<Rightarrow> jsval \<Rightarrow> string \<Rightarrow> string" where
  "wildfire_date_text env date time =
     toStr env date @ '' '' @ substring 0 2 time @ '':'' @ substring 2 4 time"

text \<open>
  One data line. \<open>now\<close> and \<open>k\<close>: the reading of \<^verbatim>\<open>Date.now()\<close> and the number of the random
  draw that make its id. \<^verbatim>\<open>values[timeIndex].substring\<close> throws when the line has no such
  field.
\<close>

definition normalizeWildfireLine ::
  "js_env \<Rightarrow> wildfire_columns \<Rightarrow> nat \<Rightarrow> nat \<Rightarrow> string \<Rightarrow> error + jsval" where
  "normalizeWildfireLine env cols now k line =
     (let values = split_on (CHR '','') line
      in case at_index values (timeIndex cols) of
           JStr time \<Rightarrow>
             Inr (JObj
               [(''type'', JStr ''wildfire''),
                (''id'', JStr (''fire-'' @ show_nat now @ ''-'' @ substring 2 9 (random36 env k))),
                (''location'', JObj
                   [(''lat'', parseFloat (at_index values (latIndex cols))),
                    (''lon'', parseFloat (at_index values (lonIndex cols)))]),
                (''date'', at_index values (dateIndex cols)),
                (''time'', JStr time),
                (''brightness'', parseFloat (at_index values (brightnessIndex cols))),
                (''confidence'', at_index values (confidenceIndex cols)),
                (''timestamp'',
                   dateTime env
                     (JStr (wildfire_date_text env (at_index values (dateIndex cols)) time)))])
         | _ \<Rightarrow> Inl TypeError)"

text \<open>
  \<^verbatim>\<open>
  normalizeWildfireData(csvData) {
    const lines = csvData.split('\n');
    const headers = lines[0].split(',');
    const latIndex = headers.indexOf('latitude');
    ...
    return lines.slice(1).filter(line => line.trim() !== '').map(line => {
      const values = line.split(',');
      return { type: 'wildfire',
        id: `fire-${Date.now()}-${Math.random().toString(36).substring(2, 9)}`,
        location: { lat: parseFloat(values[latIndex]), lon: parseFloat(values[lonIndex]) },
        date: values[dateIndex], time: values[timeIndex],
        brightness: parseFloat(values[brightnessIndex]), confidence: values[confidenceIndex],
        timestamp: new Date(`${values[dateIndex]} ${values[timeIndex].substring(0, 2)}:${values[timeIndex].substring(2, 4)}`).getTime() };
    });
  }
  \<close>
  \<open>clock i\<close> is the reading of the clock while the \<open>i\<close>-th kept line is mapped. Of anything
  but a text, \<^verbatim>\<open>csvData.split\<close> is no function.
\<close>

definition wildfire_rows :: "string list \<Rightarrow> string list" where
  "wildfire_rows lines = filter (\<lambda>line. trim line \<noteq> []) (drop 1 lines)"

definition normalizeWildfireData :: "js_env \<Rightarrow> (nat \<Rightarrow> nat) \<Rightarrow> jsval \<Rightarrow> error + jsval" where
  "normalizeWildfireData env clock csvData =
     (case csvData of
        JStr text \<Rightarrow>
          (case split_on newline text of
             [] \<Rightarrow> Inl TypeError
           | header # rest \<Rightarrow>
               (let lines = header # rest;
                    cols = wildfire_columns_of (split_on (CHR '','') header)
                in bindE (mapiE (\<lambda>i line. normalizeWildfireLine env cols (clock i) i line) 0
                            (wildfire_rows lines))
                     (\<lambda>records. Inr (JArr records))))
      | _ \<Rightarrow> Inl TypeError)"

subsubsection \<open>A concrete environment\<close>

text \<open>An environment, a cold service and a dead network to run the service on.\<close>

definition env_ex :: js_env where
  "env_ex =
     \<lparr>numStr = (\<lambda>x. if x = 10 then ''10'' else if x = 20 then ''20'' else ''0''),
      dateTime = (\<lambda>v. JNaN),
      random36 = (\<lambda>k. ''0.k3x9f2ab7q'')\<rparr>"

definition cold_service :: service_state where
  "cold_service = \<lparr>weatherCache = Map.empty, requests = []\<rparr>"

definition dead_network :: "string \<Rightarrow> http_result" where
  "dead_network url = NoResponse"

definition owm_body_ex :: jsval where
  "owm_body_ex =
     JObj [(''name'', JStr ''Lagos''),
           (''sys'', JObj [(''country'', JStr ''NG''), (''sunrise'', JNum 2), (''sunset'', JNum 3)]),
           (''coord'', JObj [(''lat'', JNum 10), (''lon'', JNum 20)]),
           (''weather'', JArr [JObj [(''main'', JStr ''Rain''), (''description'', JStr ''rain''),
                                     (''icon'', JStr ''10d'')]]),
           (''main'', JObj [(''temp'', JNum 30), (''feels_like'', JNum 33),
                            (''humidity'', JNum 80), (''pressure'', JNum 1010)]),
           (''wind'', JObj [(''speed'', JNum 4), (''deg'', JNum 180)]),
           (''clouds'', JObj [(''all'', JNum 75)]),
           (''visibility'', JNum 9000),
           (''dt'', JNum 1)]"

definition live_network :: "string \<Rightarrow> http_result" where
  "live_network url = Response 200 owm_body_ex"


definition firms_header :: string where
  "firms_header = ''latitude,longitude,acq_date,acq_time,bright_ti4,confidence''"

definition firms_row :: string where
  "firms_row = ''10.5,20.5,2024-01-01,1345,320.1,85''"

subsection \<open>The weather interface: state\<close>

text \<open>
  The class keeps its state in static fields; the model passes it as a record. DOM
  updates, console output and user notifications are not part of it. A function of the
  class becomes an action: it takes the state and returns the state it leaves, with the
  exception it threw, if any (the changes made before a throw stay made).
\<close>

datatype layout_visibility = Visible | NoneVisible  \<comment> \<open>\<^verbatim>\<open>'visible'\<close> and \<^verbatim>\<open>'none'\<close>\<close>

text \<open>
  A paint opacity: a constant, or
  \<^verbatim>\<open>['interpolate', ['linear'], ['zoom'], x1, y1, x2, y2, ...]\<close> with its stops.
\<close>

datatype opacity = Constant real | InterpolateLinearZoom "(real \<times> real) list"

record map_layer =
  layer_type :: string
  layer_source :: string
  layer_visibility :: layout_visibility
  raster_opacity :: "opacity option"

record map_source =
  source_type :: string
  source_tiles :: "string option list"
  source_tileSize :: "nat option"

record lnglat =
  lng :: real
  latitude :: real

record lnglat_bounds =
  sw :: lnglat
  ne :: lnglat

text \<open>
  Modelled from the spec: the map rendering library (an external collaborator), "a
  capability surface: \<^verbatim>\<open>addSource(id, spec)\<close>, \<^verbatim>\<open>addLayer(spec)\<close>, \<^verbatim>\<open>removeLayer(id)\<close>,
  \<^verbatim>\<open>removeSource(id)\<close>, \<^verbatim>\<open>setLayoutProperty\<close>, \<^verbatim>\<open>getZoom/getBounds/getCenter\<close>". It holds
  sources and layers by id. Its one way to fail is the spec's RenderingBackendFailure,
  "map library rejects a source/layer spec": \<open>rejected\<close> lists the ids whose
  \<^verbatim>\<open>addSource\<close> or \<^verbatim>\<open>addLayer\<close> throws. Every other call succeeds.
\<close>

record mapbox =
  map_layers :: "string \<Rightarrow> map_layer option"
  map_sources :: "string \<Rightarrow> map_source option"
  map_zoom :: real
  map_bounds :: lnglat_bounds
  map_center :: lnglat
  rejected :: "string list"

text \<open>An entry of \<^verbatim>\<open>weatherLayers\<close>.\<close>

record layer_record =
  visibility :: layout_visibility
  record_type :: "string option"
  zoomCategory :: "ZoomCategory option"
  fallback :: bool
  layers :: "string list"

text \<open>The tile metadata the server answers with, or the client falls back to.\<close>

record tile_metadata =
  meta_url :: "string option"
  meta_tileSize :: nat
  meta_minZoom :: real
  meta_maxZoom :: real
  meta_resolution :: string
  meta_attribution :: string

text \<open>
  An entry of \<^verbatim>\<open>tileCache[layerId]\<close>: the mark \<^verbatim>\<open>{timestamp, loaded: true}\<close> a prefetch
  leaves, or metadata.
\<close>

datatype tile_entry = Prefetched nat | Metadata tile_metadata

record extended_bounds =
  west :: real
  south :: real
  east :: real
  north :: real

text \<open>
  A task of the prefetch queue, \<^verbatim>\<open>{layerId, bounds, zoomCategory}\<close>. \<open>None\<close> stands for a
  task whose bounds are missing.
\<close>

record prefetch_task =
  task_layerId :: string
  task_bounds :: "extended_bounds option"
  task_zoomCategory :: ZoomCategory

record viewport =
  vp_bounds :: "lnglat_bounds option"
  vp_center :: "lnglat option"
  vp_zoom :: real

text \<open>What a timer runs when it fires.\<close>

datatype callback =
    ProcessPrefetchQueue                    \<comment> \<open>\<^verbatim>\<open>() => this.processPrefetchQueue()\<close>\<close>
  | PrefetchSimulated prefetch_task string  \<comment> \<open>the simulated network delay of \<^verbatim>\<open>prefetchTiles\<close>\<close>
  | RestoreVisibility string layout_visibility  \<comment> \<open>the second half of \<^verbatim>\<open>refreshLayer\<close>\<close>

text \<open>
  What the consumer of the prefetch queue did and when: it took a task off the queue,
  the task's promise settled (fulfilled, or rejected and logged).
\<close>

datatype consumer_event =
    Started nat prefetch_task
  | Settled nat prefetch_task bool

text \<open>
  \<open>activeWeatherLayers\<close> keeps the order in which its keys were first assigned, which is
  the order of \<^verbatim>\<open>Object.keys\<close> (for keys that are no array indices). \<open>clock_ms\<close> is the clock in
  milliseconds; \<open>timers\<close> holds the pending timeouts with the time each is due;
  \<open>pendingFetches\<close> the data requests of the event layers that are under way.
\<close>

record wstate =
  weatherLayers :: "string \<Rightarrow> layer_record option"
  activeWeatherLayers :: "(string \<times> bool) list"
  currentZoomLevel :: real
  tileCache :: "string \<Rightarrow> string \<Rightarrow> tile_entry option"
  currentViewport :: viewport
  prefetchQueue :: "prefetch_task list"
  prefetchInProgress :: bool
  mapgl :: mapbox
  clock_ms :: nat
  timers :: "(nat \<times> callback) list"
  pendingFetches :: "string list"
  consumerLog :: "consumer_event list"

type_synonym action = "wstate \<Rightarrow> error option \<times> wstate"

definition done_ok :: action where
  "done_ok s = (None, s)"

definition throw :: "error \<Rightarrow> action" where
  "throw e s = (Some e, s)"

text \<open>\<^verbatim>\<open>f; g\<close>\<close>

definition seq :: "action \<Rightarrow> action \<Rightarrow> action" where
  "seq f g s = (case f s of (None, s') \<Rightarrow> g s' | (Some e, s') \<Rightarrow> (Some e, s'))"

text \<open>\<^verbatim>\<open>try { f } catch (e) { h }\<close>\<close>

definition try_catch :: "action \<Rightarrow> action \<Rightarrow> action" where
  "try_catch f h s = (case f s of (None, s') \<Rightarrow> (None, s') | (Some e, s') \<Rightarrow> h s')"

text \<open>A step that cannot throw.\<close>

definition step_of :: "(wstate \<Rightarrow> wstate) \<Rightarrow> action" where
  "step_of f s = (None, f s)"

text \<open>\<^verbatim>\<open>xs.forEach(x => f(x))\<close>\<close>

fun for_each :: "('a \<Rightarrow> action) \<Rightarrow> 'a list \<Rightarrow> action" where
  "for_each f [] = done_ok"
| "for_each f (x # xs) = seq (f x) (for_each f xs)"

subsubsection \<open>Active flags\<close>

text \<open>\<^verbatim>\<open>this.activeWeatherLayers[layerId]\<close> as a condition: a missing key is falsy.\<close>

definition is_active :: "wstate \<Rightarrow> string \<Rightarrow> bool" where
  "is_active s layerId = (map_of (activeWeatherLayers s) layerId = Some True)"

text \<open>\<^verbatim>\<open>obj[k] = v\<close>: a key that is there keeps its place, a new one goes last.\<close>

fun assign :: "(string \<times> bool) list \<Rightarrow> string \<Rightarrow> bool \<Rightarrow> (string \<times> bool) list" where
  "assign [] k v = [(k, v)]"
| "assign ((k', v') # kvs) k v = (if k' = k then (k, v) # kvs else (k', v') # assign kvs k v)"

definition set_active :: "string \<Rightarrow> bool \<Rightarrow> wstate \<Rightarrow> wstate" where
  "set_active layerId v s = s\<lparr>activeWeatherLayers := assign (activeWeatherLayers s) layerId v\<rparr>"

subsubsection \<open>The map\<close>

definition getLayer :: "wstate \<Rightarrow> string \<Rightarrow> bool" where
  "getLayer s lid = (map_layers (mapgl s) lid \<noteq> None)"

definition getSource :: "wstate \<Rightarrow> string \<Rightarrow> bool" where
  "getSource s sid = (map_sources (mapgl s) sid \<noteq> None)"

definition addSource :: "string \<Rightarrow> map_source \<Rightarrow> action" where
  "addSource sid spec s =
     (if sid \<in> set (rejected (mapgl s)) then (Some (Error ''source rejected''), s)
      else (None, s\<lparr>mapgl := (mapgl s)\<lparr>map_sources := (map_sources (mapgl s))(sid \<mapsto> spec)\<rparr>\<rparr>))"

definition addLayer :: "string \<Rightarrow> map_layer \<Rightarrow> action" where
  "addLayer lid spec s =
     (if lid \<in> set (rejected (mapgl s)) then (Some (Error ''layer rejected''), s)
      else (None, s\<lparr>mapgl := (mapgl s)\<lparr>map_layers := (map_layers (mapgl s))(lid \<mapsto> spec)\<rparr>\<rparr>))"

definition removeLayer :: "string \<Rightarrow> wstate \<Rightarrow> wstate" where
  "removeLayer lid s = s\<lparr>mapgl := (mapgl s)\<lparr>map_layers := (map_layers (mapgl s))(lid := None)\<rparr>\<rparr>"

definition removeSource :: "string \<Rightarrow> wstate \<Rightarrow> wstate" where
  "removeSource sid s = s\<lparr>mapgl := (mapgl s)\<lparr>map_sources := (map_sources (mapgl s))(sid := None)\<rparr>\<rparr>"

text \<open>\<^verbatim>\<open>if (map.getLayer(id)) { map.setLayoutProperty(id, 'visibility', v); }\<close>\<close>

definition setVisibilityIfPresent :: "layout_visibility \<Rightarrow> string \<Rightarrow> wstate \<Rightarrow> wstate" where
  "setVisibilityIfPresent v lid s =
     (case map_layers (mapgl s) lid of
        None \<Rightarrow> s
      | Some l \<Rightarrow>
          s\<lparr>mapgl := (mapgl s)\<lparr>map_layers :=
               (map_layers (mapgl s))(lid \<mapsto> l\<lparr>layer_visibility := v\<rparr>)\<rparr>\<rparr>)"

text \<open>\<^verbatim>\<open>if (map.getLayer(id)) map.removeLayer(id); if (map.getSource(id)) map.removeSource(id);\<close>\<close>

definition removeLayerAndSource :: "string \<Rightarrow> wstate \<Rightarrow> wstate" where
  "removeLayerAndSource lid s = removeSource lid (removeLayer lid s)"

text \<open>
  \<^verbatim>\<open>this.weatherLayers[layerId]?.layers?.forEach(id => { ...remove layer and source... })\<close>
\<close>

definition cleanUpLayers :: "string \<Rightarrow> wstate \<Rightarrow> wstate" where
  "cleanUpLayers layerId s =
     (case weatherLayers s layerId of
        None \<Rightarrow> s
      | Some r \<Rightarrow> fold removeLayerAndSource (layers r) s)"

definition raster_source :: "string \<Rightarrow> map_source" where
  "raster_source tile_url =
     \<lparr>source_type = ''raster'', source_tiles = [Some tile_url], source_tileSize = Some 256\<rparr>"

definition geojson_source :: map_source where
  "geojson_source = \<lparr>source_type = ''geojson'', source_tiles = [], source_tileSize = None\<rparr>"

definition raster_layer :: "string \<Rightarrow> real \<Rightarrow> map_layer" where
  "raster_layer source op =
     \<lparr>layer_type = ''raster'', layer_source = source, layer_visibility = Visible,
      raster_opacity = Some (Constant op)\<rparr>"

definition other_layer :: "string \<Rightarrow> string \<Rightarrow> map_layer" where
  "other_layer type source =
     \<lparr>layer_type = type, layer_source = source, layer_visibility = Visible,
      raster_opacity = None\<rparr>"

text \<open>\<^verbatim>\<open>setTimeout(cb, delay)\<close>\<close>

definition setTimeout :: "callback \<Rightarrow> nat \<Rightarrow> wstate \<Rightarrow> wstate" where
  "setTimeout cb delay s = s\<lparr>timers := timers s @ [(clock_ms s + delay, cb)]\<rparr>"

definition tile_layers :: "string list" where
  "tile_layers = [''temperature'', ''precipitation'', ''wind'', ''cloud'']"

subsection \<open>The prefetch scheduler\<close>

fun category_name :: "ZoomCategory \<Rightarrow> string" where
  "category_name GLOBAL = ''GLOBAL''"
| "category_name REGIONAL = ''REGIONAL''"
| "category_name LOCAL = ''LOCAL''"

text \<open>
  \<^verbatim>\<open>x.toFixed(2)\<close> for \<open>|x| < 10^21\<close>: the sign, then the nearest multiple of 0.01 (the
  larger one of two equally near), with two decimals.
\<close>

definition toFixed2 :: "real \<Rightarrow> string" where
  "toFixed2 x =
     (let n = nat \<lfloor>\<bar>x\<bar> * 100 + 1 / 2\<rfloor>
      in (if x < 0 then ''-'' else []) @ show_nat (n div 100) @ ''.'' @
         [digit_char (n mod 100 div 10), digit_char (n mod 10)])"

text \<open>
  \<^verbatim>\<open>`${bounds.west.toFixed(2)},${bounds.south.toFixed(2)},${bounds.east.toFixed(2)},${bounds.north.toFixed(2)}_${zoomCategory}`\<close>
\<close>

definition prefetch_cache_key :: "extended_bounds \<Rightarrow> ZoomCategory \<Rightarrow> string" where
  "prefetch_cache_key b zc =
     toFixed2 (west b) @ '','' @ toFixed2 (south b) @ '','' @ toFixed2 (east b) @ '','' @
     toFixed2 (north b) @ ''_'' @ category_name zc"

text \<open>The state of the promise \<^verbatim>\<open>prefetchTiles\<close> returns, when it returns it.\<close>

datatype promise = Fulfilled | Rejected error | StillPending

text \<open>
  \<^verbatim>\<open>
  static prefetchTiles(layerId, bounds, zoomCategory) {
    return new Promise((resolve) => {
      if (!['temperature', 'precipitation', 'wind', 'cloud'].includes(layerId)) { resolve(); return; }
      const cacheKey = `${bounds.west.toFixed(2)},...,${bounds.north.toFixed(2)}_${zoomCategory}`;
      if (this.tileCache[layerId][cacheKey]) { resolve(); return; }
      setTimeout(() => {
        this.tileCache[layerId][cacheKey] = { timestamp: Date.now(), loaded: true };
        resolve();
      }, 200);
    });
  }
  \<close>
  A throw inside the executor (the bounds are missing) rejects the promise. The timer
  carries the task it works for, which is what the handlers attached to the promise see.
\<close>

definition prefetchTiles ::
  "string \<Rightarrow> extended_bounds option \<Rightarrow> ZoomCategory \<Rightarrow> wstate \<Rightarrow> promise \<times> wstate" where
  "prefetchTiles layerId b zc s =
     (if layerId \<notin> set tile_layers then (Fulfilled, s)
      else (case b of
              None \<Rightarrow> (Rejected TypeError, s)
            | Some bnds \<Rightarrow>
                (let cacheKey = prefetch_cache_key bnds zc
                 in if tileCache s layerId cacheKey \<noteq> None then (Fulfilled, s)
                    else (StillPending,
                          setTimeout
                            (PrefetchSimulated
                               \<lparr>task_layerId = layerId, task_bounds = Some bnds,
                                task_zoomCategory = zc\<rparr> cacheKey) 200 s))))"

text \<open>
  The two handlers \<^verbatim>\<open>processPrefetchQueue\<close> attaches to the promise of the task it took,
  \<^verbatim>\<open>.then(() => { setTimeout(() => this.processPrefetchQueue(), 100); })\<close> and
  \<^verbatim>\<open>.catch(error => { console.error(...); setTimeout(() => this.processPrefetchQueue(), 100); })\<close>:
  \<open>ok\<close> tells which of the two runs.
\<close>

definition settled :: "prefetch_task \<Rightarrow> bool \<Rightarrow> wstate \<Rightarrow> wstate" where
  "settled item ok s =
     setTimeout ProcessPrefetchQueue 100
       (s\<lparr>consumerLog := consumerLog s @ [Settled (clock_ms s) item ok]\<rparr>)"

text \<open>
  \<^verbatim>\<open>
  static processPrefetchQueue() {
    if (this.prefetchQueue.length === 0) { this.prefetchInProgress = false; return; }
    this.prefetchInProgress = true;
    const item = this.prefetchQueue.shift();
    this.prefetchTiles(item.layerId, item.bounds, item.zoomCategory)
      .then(() => { setTimeout(() => this.processPrefetchQueue(), 100); })
      .catch(error => { console.error(...); setTimeout(() => this.processPrefetchQueue(), 100); });
  }
  \<close>
  A promise that is still pending has its handlers run by the timer that settles it.
\<close>

definition processPrefetchQueue :: "wstate \<Rightarrow> wstate" where
  "processPrefetchQueue s =
     (case prefetchQueue s of
        [] \<Rightarrow> s\<lparr>prefetchInProgress := False\<rparr>
      | item # rest \<Rightarrow>
          (let s1 = s\<lparr>prefetchInProgress := True, prefetchQueue := rest,
                      consumerLog := consumerLog s @ [Started (clock_ms s) item]\<rparr>
           in case prefetchTiles (task_layerId item) (task_bounds item)
                     (task_zoomCategory item) s1 of
                (Fulfilled, s2) \<Rightarrow> settled item True s2
              | (Rejected e, s2) \<Rightarrow> settled item False s2
              | (StillPending, s2) \<Rightarrow> s2))"

text \<open>
  The timer of \<^verbatim>\<open>prefetchTiles\<close> fires: the cache entry is written, the promise resolves
  and its \<^verbatim>\<open>then\<close> handler runs.
\<close>

definition prefetchSimulated :: "prefetch_task \<Rightarrow> string \<Rightarrow> wstate \<Rightarrow> wstate" where
  "prefetchSimulated item cacheKey s =
     settled item True
       (s\<lparr>tileCache :=
            (tileCache s)(task_layerId item := (tileCache s (task_layerId item))(cacheKey \<mapsto>
               Prefetched (clock_ms s)))\<rparr>)"

text \<open>
  \<^verbatim>\<open>
  static queueTilePrefetch() {
    this.prefetchQueue = [];
    const bounds = this.currentViewport.bounds;
    const zoom = this.currentViewport.zoom;
    const zoomCategory = this.getZoomCategory(zoom);
    const sw = bounds._sw; const ne = bounds._ne;
    const width = ne.lng - sw.lng; const height = ne.lat - sw.lat;
    const extendedBounds = { west: sw.lng - width * 0.2, south: sw.lat - height * 0.2,
                             east: ne.lng + width * 0.2, north: ne.lat + height * 0.2 };
    Object.keys(this.activeWeatherLayers).forEach(layerId => {
      if (this.activeWeatherLayers[layerId]) {
        this.prefetchQueue.push({ layerId, bounds: extendedBounds, zoomCategory });
      }
    });
    if (!this.prefetchInProgress) { this.processPrefetchQueue(); }
  }
  \<close>
  With no bounds in the viewport (\<^verbatim>\<open>null\<close>), \<^verbatim>\<open>bounds._sw\<close> throws.
\<close>

definition extendedBounds :: "lnglat_bounds \<Rightarrow> extended_bounds" where
  "extendedBounds b =
     (let width = lng (ne b) - lng (sw b);
          height = latitude (ne b) - latitude (sw b)
      in \<lparr>west = lng (sw b) - width * (2 / 10),
          south = latitude (sw b) - height * (2 / 10),
          east = lng (ne b) + width * (2 / 10),
          north = latitude (ne b) + height * (2 / 10)\<rparr>)"

definition active_keys :: "wstate \<Rightarrow> string list" where
  "active_keys s = filter (is_active s) (map fst (activeWeatherLayers s))"

definition queueTilePrefetch :: action where
  "queueTilePrefetch s =
     (let s1 = s\<lparr>prefetchQueue := []\<rparr>
      in case vp_bounds (currentViewport s1) of
           None \<Rightarrow> (Some TypeError, s1)
         | Some b \<Rightarrow>
             (let zc = getZoomCategory (vp_zoom (currentViewport s1));
                  ext = extendedBounds b;
                  s2 = s1\<lparr>prefetchQueue := prefetchQueue s1 @
                          map (\<lambda>layerId. \<lparr>task_layerId = layerId, task_bounds = Some ext,
                                           task_zoomCategory = zc\<rparr>)
                              (active_keys s1)\<rparr>
              in if \<not> prefetchInProgress s2 then (None, processPrefetchQueue s2)
                 else (None, s2)))"

subsection \<open>Layer builders\<close>

text \<open>
  A builder that fills the array \<^verbatim>\<open>layerIds\<close> it is given returns the array as it leaves
  it, or the exception it threw.
\<close>

type_synonym 'a comp = "wstate \<Rightarrow> (error + 'a) \<times> wstate"

definition ret :: "'a \<Rightarrow> 'a comp" where
  "ret v s = (Inr v, s)"

definition then_do :: "action \<Rightarrow> 'a comp \<Rightarrow> 'a comp" where
  "then_do f g s = (case f s of (None, s') \<Rightarrow> g s' | (Some e, s') \<Rightarrow> (Inl e, s'))"

text \<open>\<^verbatim>\<open>if (!map.getSource(sourceId)) { map.addSource(sourceId, spec); }\<close>\<close>

definition addSourceIfMissing :: "string \<Rightarrow> map_source \<Rightarrow> action" where
  "addSourceIfMissing sid spec s = (if \<not> getSource s sid then addSource sid spec s else (None, s))"

definition owm_appid :: string where
  "owm_appid = ''6c14f64dcf8546cad54c8a33c52bd577''"

text \<open>\<^verbatim>\<open>addMajorClimateZones(layerIds)\<close>\<close>

definition addMajorClimateZones :: "string list \<Rightarrow> string list comp" where
  "addMajorClimateZones layerIds =
     then_do (addSourceIfMissing ''climate-zones-source'' geojson_source)
    (then_do (addLayer ''climate-zones-lines'' (other_layer ''line'' ''climate-zones-source''))
    (then_do (addLayer ''climate-zones-labels'' (other_layer ''symbol'' ''climate-zones-source''))
    (ret (layerIds @ [''climate-zones-lines'', ''climate-zones-labels'']))))"

text \<open>\<^verbatim>\<open>createGlobalTemperatureLayer(layerIds)\<close>\<close>

definition createGlobalTemperatureLayer :: "string list \<Rightarrow> string list comp" where
  "createGlobalTemperatureLayer layerIds =
     then_do (addSourceIfMissing ''temperature-global-tiles''
        (raster_source (''https://tile.openweathermap.org/map/temp_new/{z}/{x}/{y}.png?appid=''
                        @ owm_appid)))
    (then_do (addLayer ''temperature-global-layer''
        (raster_layer ''temperature-global-tiles'' (6 / 10)))
    (addMajorClimateZones (layerIds @ [''temperature-global-layer''])))"

text \<open>
  \<^verbatim>\<open>createRegionalTemperatureLayer(layerIds)\<close>; \<^verbatim>\<open>addRegionalTemperatureContours\<close> only
  writes to the console.
\<close>

definition createRegionalTemperatureLayer :: "string list \<Rightarrow> string list comp" where
  "createRegionalTemperatureLayer layerIds =
     then_do (addSourceIfMissing ''temperature-regional-tiles''
        (raster_source (''https://maps.openweathermap.org/maps/2.0/weather/TA2/{z}/{x}/{y}?appid=''
                        @ owm_appid @ ''&fill_bound=true'')))
    (then_do (addLayer ''temperature-regional-layer''
        (raster_layer ''temperature-regional-tiles'' (7 / 10)))
    (ret (layerIds @ [''temperature-regional-layer''])))"

text \<open>
  \<^verbatim>\<open>addLocalTemperaturePoints(layerIds)\<close>: a source that is there gets new data, which the
  model does not hold.
\<close>

definition addLocalTemperaturePoints :: "string list \<Rightarrow> string list comp" where
  "addLocalTemperaturePoints layerIds =
     then_do (addSourceIfMissing ''temperature-points-source'' geojson_source)
    (then_do (addLayer ''temperature-points-heat''
        (other_layer ''heatmap'' ''temperature-points-source''))
    (then_do (addLayer ''temperature-points-values''
        (other_layer ''symbol'' ''temperature-points-source''))
    (ret (layerIds @ [''temperature-points-heat'', ''temperature-points-values'']))))"

text \<open>
  \<^verbatim>\<open>createLocalTemperatureLayer(layerIds)\<close>: a source that cannot be added is tried again
  with the other tile URL; from zoom 10 on the temperature points are added.
\<close>

definition createLocalTemperatureLayer :: "string list \<Rightarrow> string list comp" where
  "createLocalTemperatureLayer layerIds =
     then_do
       (\<lambda>s. if \<not> getSource s ''temperature-local-tiles''
            then try_catch
                   (addSource ''temperature-local-tiles''
                      (raster_source
                         (''https://maps.openweathermap.org/maps/2.0/weather/TA2/{z}/{x}/{y}?appid=''
                          @ owm_appid @ ''&fill_bound=true&opacity=0.9'')))
                   (addSource ''temperature-local-tiles''
                      (raster_source
                         (''https://tile.openweathermap.org/map/temp_new/{z}/{x}/{y}.png?appid=''
                          @ owm_appid))) s
            else (None, s))
    (then_do (addLayer ''temperature-local-layer''
        (raster_layer ''temperature-local-tiles'' (8 / 10)))
    (\<lambda>s. if map_zoom (mapgl s) \<ge> 10
          then addLocalTemperaturePoints (layerIds @ [''temperature-local-layer'']) s
          else ret (layerIds @ [''temperature-local-layer'']) s))"

text \<open>
  \<^verbatim>\<open>createFallbackTemperatureLayer(data)\<close>: its own \<^verbatim>\<open>try\<close>/\<^verbatim>\<open>catch\<close> keeps every failure
  inside.
\<close>

definition createFallbackTemperatureLayer :: "wstate \<Rightarrow> wstate" where
  "createFallbackTemperatureLayer s =
     (case then_do (addSourceIfMissing ''temperature-fallback-source'' geojson_source)
          (then_do (addLayer ''temperature-fallback-layer''
              (other_layer ''fill'' ''temperature-fallback-source''))
          (then_do (addLayer ''temperature-fallback-text''
              (other_layer ''symbol'' ''temperature-fallback-source''))
          (ret [''temperature-fallback-layer'', ''temperature-fallback-text''])))
          (cleanUpLayers ''temperature'' s) of
        (Inr layerIds, s1) \<Rightarrow>
          s1\<lparr>weatherLayers := (weatherLayers s1)(''temperature'' \<mapsto>
               \<lparr>visibility = Visible, record_type = Some ''temperature'', zoomCategory = None,
                fallback = True, layers = layerIds\<rparr>)\<rparr>
      | (Inl e, s1) \<Rightarrow> s1)"

text \<open>\<^verbatim>\<open>this.currentZoomLevel || map.getZoom()\<close>\<close>

definition current_or_map_zoom :: "wstate \<Rightarrow> real" where
  "current_or_map_zoom s =
     (if currentZoomLevel s \<noteq> 0 then currentZoomLevel s else map_zoom (mapgl s))"

text \<open>
  \<^verbatim>\<open>
  static createTemperatureLayer(zoomCategory) {
    if (!zoomCategory) { zoomCategory = this.getZoomCategory(this.currentZoomLevel || map.getZoom()); }
    try {
      this.weatherLayers['temperature']?.layers?.forEach(id => { ...remove... });
      const layerIds = [];
      switch (zoomCategory) {
        case 'GLOBAL': this.createGlobalTemperatureLayer(layerIds); break;
        case 'REGIONAL': this.createRegionalTemperatureLayer(layerIds); break;
        case 'LOCAL': this.createLocalTemperatureLayer(layerIds); break;
        default: this.createGlobalTemperatureLayer(layerIds);
      }
      this.weatherLayers['temperature'] = { visibility: 'visible', type: 'temperature',
                                            zoomCategory: zoomCategory, layers: layerIds };
    } catch (e) {
      this.createFallbackTemperatureLayer({ weather: { temperature: 25 }, location: { lat: 0, lon: 0 } });
    }
  }
  \<close>
\<close>

definition createTemperatureLayer :: "ZoomCategory option \<Rightarrow> wstate \<Rightarrow> wstate" where
  "createTemperatureLayer zc_opt s =
     (let zc = (case zc_opt of
                  None \<Rightarrow> getZoomCategory (current_or_map_zoom s)
                | Some c \<Rightarrow> c)
      in case (case zc of
                 GLOBAL \<Rightarrow> createGlobalTemperatureLayer []
               | REGIONAL \<Rightarrow> createRegionalTemperatureLayer []
               | LOCAL \<Rightarrow> createLocalTemperatureLayer [])
              (cleanUpLayers ''temperature'' s) of
           (Inr layerIds, s1) \<Rightarrow>
             s1\<lparr>weatherLayers := (weatherLayers s1)(''temperature'' \<mapsto>
                  \<lparr>visibility = Visible, record_type = Some ''temperature'',
                   zoomCategory = Some zc, fallback = False, layers = layerIds\<rparr>)\<rparr>
         | (Inl e, s1) \<Rightarrow> createFallbackTemperatureLayer s1)"

text \<open>
  The class defines \<^verbatim>\<open>createPrecipitationLayer\<close> twice; the later definition, which
  takes no zoom category, is the one the class has:
  \<^verbatim>\<open>
  static createPrecipitationLayer() {
    try {
      this.weatherLayers['precipitation']?.layers?.forEach(id => { ...remove... });
      if (!map.getSource('precipitation-tiles')) { map.addSource('precipitation-tiles', {...}); }
      map.addLayer({ id: 'precipitation-layer', type: 'raster', source: 'precipitation-tiles',
                     paint: { 'raster-opacity': 0.7 } });
      this.weatherLayers['precipitation'] = { visibility: 'visible', type: 'precipitation',
                                              layers: ['precipitation-layer'] };
    } catch (e) { console.error(...); I.error(...); }
  }
  \<close>
\<close>

definition createPrecipitationLayer :: "wstate \<Rightarrow> wstate" where
  "createPrecipitationLayer s =
     (case seq (addSourceIfMissing ''precipitation-tiles''
                  (raster_source
                     (''https://tile.openweathermap.org/map/precipitation_new/{z}/{x}/{y}.png?appid=''
                      @ owm_appid)))
               (addLayer ''precipitation-layer'' (raster_layer ''precipitation-tiles'' (7 / 10)))
               (cleanUpLayers ''precipitation'' s) of
        (None, s1) \<Rightarrow>
          s1\<lparr>weatherLayers := (weatherLayers s1)(''precipitation'' \<mapsto>
               \<lparr>visibility = Visible, record_type = Some ''precipitation'', zoomCategory = None,
                fallback = False, layers = [''precipitation-layer'']\<rparr>)\<rparr>
      | (Some e, s1) \<Rightarrow> s1)"

text \<open>
  \<^verbatim>\<open>createWindLayer(zoomCategory)\<close> and \<^verbatim>\<open>createCloudLayer(zoomCategory)\<close>: one source,
  tried a second time with the other endpoint, one layer, whatever the zoom category.
\<close>

definition createWindLayer :: "wstate \<Rightarrow> wstate" where
  "createWindLayer s =
     (case seq
             (\<lambda>s. if \<not> getSource s ''wind-tiles''
                  then try_catch
                         (addSource ''wind-tiles''
                            (raster_source
                               (''https://tile.openweathermap.org/map/wind_new/{z}/{x}/{y}.png?appid=''
                                @ owm_appid)))
                         (addSource ''wind-tiles''
                            (raster_source
                               (''https://maps.openweathermap.org/maps/2.0/weather/WND/{z}/{x}/{y}?appid=''
                                @ owm_appid @ ''&fill_bound=true''))) s
                  else (None, s))
             (addLayer ''wind-layer'' (raster_layer ''wind-tiles'' (8 / 10)))
             (cleanUpLayers ''wind'' s) of
        (None, s1) \<Rightarrow>
          s1\<lparr>weatherLayers := (weatherLayers s1)(''wind'' \<mapsto>
               \<lparr>visibility = Visible, record_type = Some ''wind'', zoomCategory = None,
                fallback = False, layers = [''wind-layer'']\<rparr>)\<rparr>
      | (Some e, s1) \<Rightarrow> s1)"

definition createCloudLayer :: "wstate \<Rightarrow> wstate" where
  "createCloudLayer s =
     (case seq
             (\<lambda>s. if \<not> getSource s ''cloud-tiles''
                  then try_catch
                         (addSource ''cloud-tiles''
                            (raster_source
                               (''https://tile.openweathermap.org/map/clouds_new/{z}/{x}/{y}.png?appid=''
                                @ owm_appid)))
                         (addSource ''cloud-tiles''
                            (raster_source
                               (''https://maps.openweathermap.org/maps/2.0/weather/CL/{z}/{x}/{y}?appid=''
                                @ owm_appid @ ''&fill_bound=true''))) s
                  else (None, s))
             (addLayer ''cloud-layer'' (raster_layer ''cloud-tiles'' (8 / 10)))
             (cleanUpLayers ''cloud'' s) of
        (None, s1) \<Rightarrow>
          s1\<lparr>weatherLayers := (weatherLayers s1)(''cloud'' \<mapsto>
               \<lparr>visibility = Visible, record_type = Some ''cloud'', zoomCategory = None,
                fallback = False, layers = [''cloud-layer'']\<rparr>)\<rparr>
      | (Some e, s1) \<Rightarrow> s1)"

text \<open>\<^verbatim>\<open>if (map.getLayer(id)) { map.removeLayer(id); }\<close> is \<open>removeLayer\<close>.\<close>

text \<open>
  \<^verbatim>\<open>initCityLabels()\<close>: inside its \<^verbatim>\<open>try\<close>, the location marker's layers and source and
  the city layers and source are removed, the source and the one layer \<^verbatim>\<open>city-labels\<close>
  added, the record and the active flag set. \<^verbatim>\<open>map.flyTo\<close> asks the renderer for a camera
  move, whose course is the renderer's.
\<close>

definition removeLocationMarker :: "wstate \<Rightarrow> wstate" where
  "removeLocationMarker s =
     (case weatherLayers s ''temperature-location'' of
        None \<Rightarrow> s
      | Some r \<Rightarrow> removeSource ''temperature-location-source'' (fold removeLayer (layers r) s))"

definition initCityLabels :: "wstate \<Rightarrow> wstate" where
  "initCityLabels s =
     (case seq (addSource ''city-labels-source'' geojson_source)
               (addLayer ''city-labels'' (other_layer ''symbol'' ''city-labels-source''))
               (removeSource ''city-labels-source''
                  (fold removeLayer
                     [''city-labels'', ''city-points'', ''city-temp-labels'', ''city-name-labels'']
                     (removeLocationMarker s))) of
        (None, s1) \<Rightarrow>
          set_active ''cities'' True
            (s1\<lparr>weatherLayers := (weatherLayers s1)(''cities'' \<mapsto>
                  \<lparr>visibility = Visible, record_type = None, zoomCategory = None,
                   fallback = False, layers = [''city-labels'']\<rparr>)\<rparr>)
      | (Some e, s1) \<Rightarrow> s1)"

text \<open>
  \<^verbatim>\<open>updateCityLabelsVisibility()\<close> clears the filter of \<^verbatim>\<open>city-labels\<close> and sets its text
  size, neither of which the model holds, inside a \<^verbatim>\<open>try\<close>: it leaves the state as it is.
\<close>

definition updateCityLabelsVisibility :: "wstate \<Rightarrow> wstate" where
  "updateCityLabelsVisibility s = s"

text \<open>Show or hide every sublayer of a record that the map has, and set the record's flag.\<close>

definition setRecordVisibility :: "layout_visibility \<Rightarrow> string \<Rightarrow> wstate \<Rightarrow> wstate" where
  "setRecordVisibility v layerId s =
     (case weatherLayers s layerId of
        None \<Rightarrow> s
      | Some r \<Rightarrow>
          (let s1 = fold (setVisibilityIfPresent v) (layers r) s
           in s1\<lparr>weatherLayers := (weatherLayers s1)(layerId \<mapsto> r\<lparr>visibility := v\<rparr>)\<rparr>))"

text \<open>
  \<^verbatim>\<open>if (this.weatherLayers['cities']) { ...show its layers...; visibility = 'visible'; }
  else { this.initCityLabels(); }\<close>
\<close>

definition showOrInitCities :: "wstate \<Rightarrow> wstate" where
  "showOrInitCities s =
     (if weatherLayers s ''cities'' \<noteq> None then setRecordVisibility Visible ''cities'' s
      else initCityLabels s)"

subsection \<open>Layer lifecycle\<close>

text \<open>
  What the class takes from outside the source file: \<^verbatim>\<open>createForecastLayer\<close>, which
  \<^verbatim>\<open>fetchLayerData\<close> calls for the three forecast layers and the file does not define;
  and what the server answers to \<^verbatim>\<open>POST /api/weather/tiles\<close> for a layer and a zoom
  category (\<open>None\<close>: the request failed, the status was not ok, or the body was no JSON).
\<close>

record client_env =
  createForecastLayer :: "string \<Rightarrow> ZoomCategory \<Rightarrow> action"
  tilesEndpoint :: "string \<Rightarrow> ZoomCategory \<Rightarrow> tile_metadata option"

text \<open>
  \<^verbatim>\<open>
  static fetchLayerData(layerId, zoomCategory) {
    if (!layerId) return;
    this.activeWeatherLayers[layerId] = true;
    if (!zoomCategory) { zoomCategory = this.getZoomCategory(this.currentZoomLevel || map.getZoom()); }
    switch (layerId) {
      case 'temperature': this.createTemperatureLayer(zoomCategory); break;
      case 'precipitation': this.createPrecipitationLayer(zoomCategory); break;
      case 'wind': this.createWindLayer(zoomCategory); break;
      case 'cloud': this.createCloudLayer(zoomCategory); break;
      case 'cities': ...show the city labels, or initCityLabels()...; break;
      case 'hurricane': case 'wildfire': case 'disaster': fetch(...).then(...).catch(...); break;
      case 'forecastTemp': case 'forecastPrecip': case 'forecastWind':
        this.createForecastLayer(layerId, zoomCategory); break;
      default: console.warn(...);
    }
    if (this.currentViewport.bounds) { this.queueTilePrefetch(); }
  }
  \<close>
  For the three event layers the request is started and its answer is a later event.
\<close>

definition fetchLayerData :: "client_env \<Rightarrow> string \<Rightarrow> ZoomCategory option \<Rightarrow> action" where
  "fetchLayerData ext layerId zc_opt s =
     (if layerId = [] then (None, s)
      else
        (let s1 = set_active layerId True s;
             zc = (case zc_opt of
                     None \<Rightarrow> getZoomCategory (current_or_map_zoom s1)
                   | Some c \<Rightarrow> c)
         in seq
              (if layerId = ''temperature'' then step_of (createTemperatureLayer (Some zc))
               else if layerId = ''precipitation'' then step_of createPrecipitationLayer
               else if layerId = ''wind'' then step_of createWindLayer
               else if layerId = ''cloud'' then step_of createCloudLayer
               else if layerId = ''cities'' then step_of showOrInitCities
               else if layerId \<in> set [''hurricane'', ''wildfire'', ''disaster'']
                 then step_of (\<lambda>s. s\<lparr>pendingFetches := pendingFetches s @ [layerId]\<rparr>)
               else if layerId \<in> set [''forecastTemp'', ''forecastPrecip'', ''forecastWind'']
                 then createForecastLayer ext layerId zc
               else done_ok)
              (\<lambda>s. if vp_bounds (currentViewport s) \<noteq> None then queueTilePrefetch s
                    else (None, s))
              s1))"

text \<open>
  \<^verbatim>\<open>
  static showLayer(layerId) {
    if (!layerId) return;
    if (this.weatherLayers[layerId]?.layers?.length > 0) {
      ...show its sublayers...; this.weatherLayers[layerId].visibility = 'visible';
    } else {
      const zoomCategory = this.getZoomCategory(map.getZoom());
      this.fetchLayerData(layerId, zoomCategory);
    }
    this.activeWeatherLayers[layerId] = true;
    if (layerId === 'temperature') {
      this.activeWeatherLayers['cities'] = true;
      ...show the city labels, or initCityLabels()...
      this.updateCityLabelsVisibility();
    }
    ...timeline...
    if (this.currentViewport.bounds && ['temperature', 'precipitation', 'wind', 'cloud'].includes(layerId)) {
      this.queueTilePrefetch();
    }
  }
  \<close>
\<close>

definition already_created :: "wstate \<Rightarrow> string \<Rightarrow> bool" where
  "already_created s layerId =
     (case weatherLayers s layerId of None \<Rightarrow> False | Some r \<Rightarrow> layers r \<noteq> [])"

definition showLayer :: "client_env \<Rightarrow> string \<Rightarrow> action" where
  "showLayer ext layerId s =
     (if layerId = [] then (None, s)
      else
        seq (if already_created s layerId then step_of (setRecordVisibility Visible layerId)
             else fetchLayerData ext layerId (Some (getZoomCategory (map_zoom (mapgl s)))))
       (seq (step_of (set_active layerId True))
       (seq (if layerId = ''temperature''
             then step_of (\<lambda>s. updateCityLabelsVisibility
                                  (showOrInitCities (set_active ''cities'' True s)))
             else done_ok)
            (\<lambda>s. if vp_bounds (currentViewport s) \<noteq> None \<and> layerId \<in> set tile_layers
                  then queueTilePrefetch s else (None, s))))
        s)"

text \<open>\<^verbatim>\<open>id.startsWith(prefix)\<close>\<close>

definition startsWith :: "string \<Rightarrow> string \<Rightarrow> bool" where
  "startsWith str prefix = (take (length prefix) str = prefix)"

text \<open>
  \<^verbatim>\<open>
  static hideLayer(layerId) {
    if (!layerId) return;
    if (this.weatherLayers[layerId]) { ...hide its sublayers...; visibility = 'none'; }
    if (this.weatherLayers['transitions']) {
      const transitionPrefixes = [`${layerId}-transition-GLOBAL-REGIONAL`,
                                  `${layerId}-transition-REGIONAL-LOCAL`];
      this.weatherLayers['transitions'].layers.forEach(id => {
        if (transitionPrefixes.some(prefix => id.startsWith(prefix))) { ...hide id... }
      });
    }
    this.activeWeatherLayers[layerId] = false;
    if (layerId === 'temperature') {
      this.activeWeatherLayers['cities'] = false;
      if (this.weatherLayers['cities']) { ...hide its sublayers...; visibility = 'none'; }
    }
    ...timeline...
  }
  \<close>
\<close>

definition hideTransitions :: "string \<Rightarrow> wstate \<Rightarrow> wstate" where
  "hideTransitions layerId s =
     (case weatherLayers s ''transitions'' of
        None \<Rightarrow> s
      | Some r \<Rightarrow>
          fold (setVisibilityIfPresent NoneVisible)
            (filter (\<lambda>lid. startsWith lid (layerId @ ''-transition-GLOBAL-REGIONAL'') \<or>
                           startsWith lid (layerId @ ''-transition-REGIONAL-LOCAL''))
               (layers r)) s)"

definition hideLayer :: "string \<Rightarrow> wstate \<Rightarrow> wstate" where
  "hideLayer layerId s =
     (if layerId = [] then s
      else
        (let s1 = setRecordVisibility NoneVisible layerId s;
             s2 = hideTransitions layerId s1;
             s3 = set_active layerId False s2
         in if layerId = ''temperature''
            then setRecordVisibility NoneVisible ''cities'' (set_active ''cities'' False s3)
            else s3))"

text \<open>
  \<^verbatim>\<open>
  static toggleLayer(layerId) {
    try {
      this.activeWeatherLayers[layerId] = !this.activeWeatherLayers[layerId];
      ...toggle button...
      if (layerId === 'temperature') {
        this.activeWeatherLayers['cities'] = this.activeWeatherLayers['temperature'];
        if (this.activeWeatherLayers[layerId]) { this.showLayer('cities'); }
        else { this.hideLayer('cities'); }
      }
      // Don't allow direct toggling of city labels - they're managed with temperature
      if (layerId === 'cities') { console.log(...); return; }
      if (this.activeWeatherLayers[layerId]) { this.showLayer(layerId); }
      else { this.hideLayer(layerId); }
    } catch (e) { console.error(...); }
  }
  \<close>
\<close>

definition toggleLayer :: "client_env \<Rightarrow> string \<Rightarrow> wstate \<Rightarrow> wstate" where
  "toggleLayer ext layerId s =
     snd (try_catch
       (seq (step_of (\<lambda>s. set_active layerId (\<not> is_active s layerId) s))
       (seq (if layerId = ''temperature''
             then seq (step_of (\<lambda>s. set_active ''cities'' (is_active s ''temperature'') s))
                      (\<lambda>s. if is_active s layerId then showLayer ext ''cities'' s
                            else (None, hideLayer ''cities'' s))
             else done_ok)
            (if layerId = ''cities'' then done_ok
             else (\<lambda>s. if is_active s layerId then showLayer ext layerId s
                        else (None, hideLayer layerId s)))))
       done_ok s)"



text \<open>The timer of \<^verbatim>\<open>refreshLayer\<close> fires.\<close>

definition restoreVisibility :: "string \<Rightarrow> layout_visibility \<Rightarrow> wstate \<Rightarrow> wstate" where
  "restoreVisibility layerId v s =
     (case weatherLayers s layerId of
        None \<Rightarrow> s
      | Some r \<Rightarrow>
          (let s1 = s\<lparr>weatherLayers := (weatherLayers s)(layerId \<mapsto> r\<lparr>visibility := v\<rparr>)\<rparr>
           in fold (setVisibilityIfPresent v) (layers r) s1))"

subsection \<open>Timers\<close>

fun run_callback :: "callback \<Rightarrow> wstate \<Rightarrow> wstate" where
  "run_callback ProcessPrefetchQueue s = processPrefetchQueue s"
| "run_callback (PrefetchSimulated item cacheKey) s = prefetchSimulated item cacheKey s"
| "run_callback (RestoreVisibility layerId v) s = restoreVisibility layerId v s"

text \<open>
  The timer that fires next: the one due first and, among those due together, the one set
  first. It is returned with the timers that stay.
\<close>

fun next_timer :: "(nat \<times> callback) list \<Rightarrow> ((nat \<times> callback) \<times> (nat \<times> callback) list) option" where
  "next_timer [] = None"
| "next_timer (t # ts) =
     (case next_timer ts of
        None \<Rightarrow> Some (t, [])
      | Some (u, rest) \<Rightarrow> if fst u < fst t then Some (u, t # rest) else Some (t, ts))"

text \<open>One turn of the event loop: the clock moves to the time the timer is due.\<close>

definition fire :: "wstate \<Rightarrow> wstate" where
  "fire s =
     (case next_timer (timers s) of
        None \<Rightarrow> s
      | Some ((due, cb), rest) \<Rightarrow>
          run_callback cb (s\<lparr>clock_ms := max (clock_ms s) due, timers := rest\<rparr>))"

text \<open>At most \<open>n\<close> turns of the event loop, stopping when no timer is left.\<close>

fun run_timers :: "nat \<Rightarrow> wstate \<Rightarrow> wstate" where
  "run_timers 0 s = s"
| "run_timers (Suc n) s = (if timers s = [] then s else run_timers n (fire s))"

subsection \<open>Transitions\<close>

definition lower_name :: "ZoomCategory \<Rightarrow> string" where
  "lower_name c = (case c of GLOBAL \<Rightarrow> ''global'' | REGIONAL \<Rightarrow> ''regional'' | LOCAL \<Rightarrow> ''local'')"

text \<open>The table \<^verbatim>\<open>baseUrls\<close> of the fallback.\<close>

definition baseUrls :: "string \<Rightarrow> (ZoomCategory \<Rightarrow> string) option" where
  "baseUrls layerId =
     (if layerId = ''temperature'' then Some (\<lambda>c. case c of
          GLOBAL \<Rightarrow> ''https://tile.openweathermap.org/map/temp_new/{z}/{x}/{y}.png?appid='' @ owm_appid
        | REGIONAL \<Rightarrow> ''https://maps.openweathermap.org/maps/2.0/weather/TA2/{z}/{x}/{y}?appid='' @ owm_appid @ ''&fill_bound=true''
        | LOCAL \<Rightarrow> ''https://maps.openweathermap.org/maps/2.0/weather/TA2/{z}/{x}/{y}?appid='' @ owm_appid @ ''&fill_bound=true&opacity=0.9'')
      else if layerId = ''precipitation'' then Some (\<lambda>c. case c of
          GLOBAL \<Rightarrow> ''https://tile.openweathermap.org/map/precipitation_new/{z}/{x}/{y}.png?appid='' @ owm_appid
        | REGIONAL \<Rightarrow> ''https://maps.openweathermap.org/maps/2.0/weather/PAC0/{z}/{x}/{y}?appid='' @ owm_appid @ ''&fill_bound=true''
        | LOCAL \<Rightarrow> ''https://maps.openweathermap.org/maps/2.0/weather/PAC0/{z}/{x}/{y}?appid='' @ owm_appid @ ''&fill_bound=true&opacity=0.9'')
      else if layerId = ''wind'' then Some (\<lambda>c. case c of
          GLOBAL \<Rightarrow> ''https://tile.openweathermap.org/map/wind_new/{z}/{x}/{y}.png?appid='' @ owm_appid
        | REGIONAL \<Rightarrow> ''https://maps.openweathermap.org/maps/2.0/weather/WND/{z}/{x}/{y}?appid='' @ owm_appid @ ''&fill_bound=true''
        | LOCAL \<Rightarrow> ''https://maps.openweathermap.org/maps/2.0/weather/WND/{z}/{x}/{y}?appid='' @ owm_appid @ ''&fill_bound=true&opacity=0.9'')
      else if layerId = ''cloud'' then Some (\<lambda>c. case c of
          GLOBAL \<Rightarrow> ''https://tile.openweathermap.org/map/clouds_new/{z}/{x}/{y}.png?appid='' @ owm_appid
        | REGIONAL \<Rightarrow> ''https://maps.openweathermap.org/maps/2.0/weather/CL/{z}/{x}/{y}?appid='' @ owm_appid @ ''&fill_bound=true''
        | LOCAL \<Rightarrow> ''https://maps.openweathermap.org/maps/2.0/weather/CL/{z}/{x}/{y}?appid='' @ owm_appid @ ''&fill_bound=true&opacity=0.9'')
      else None)"

text \<open>
  The fallback of \<^verbatim>\<open>getTileMetadata\<close>:
  \<^verbatim>\<open>{ url: baseUrls[layerId]?.[zoomCategory] || baseUrls[layerId]?.GLOBAL, tileSize: 256,
     minZoom: ..., maxZoom: ..., resolution: ..., attribution: '(c) OpenWeatherMap', ... }\<close>
  (the copyright sign is the one character \<open>0xA9\<close>). The tile coverage and the timestamp
  of metadata are not held.
\<close>

definition fallbackMetadata :: "string \<Rightarrow> ZoomCategory \<Rightarrow> tile_metadata" where
  "fallbackMetadata layerId zc =
     \<lparr>meta_url = map_option (\<lambda>t. t zc) (baseUrls layerId),
      meta_tileSize = 256,
      meta_minZoom = (if zc = GLOBAL then 0 else if zc = REGIONAL then 3 else 8),
      meta_maxZoom = (if zc = GLOBAL then 3 else if zc = REGIONAL then 8 else 22),
      meta_resolution =
        (if zc = GLOBAL then ''low'' else if zc = REGIONAL then ''medium'' else ''high''),
      meta_attribution = CHR 0xA9 # '' OpenWeatherMap''\<rparr>"

text \<open>\<^verbatim>\<open>`tiles_${layerId}_${zoomCategory}_${bounds ? JSON.stringify(bounds) : 'global'}`\<close> without bounds.\<close>

definition metadata_cache_key :: "string \<Rightarrow> ZoomCategory \<Rightarrow> string" where
  "metadata_cache_key layerId zc = ''tiles_'' @ layerId @ ''_'' @ category_name zc @ ''_global''"

text \<open>
  \<^verbatim>\<open>
  static async getTileMetadata(layerId, zoomCategory, bounds = null) {
    try {
      const cacheKey = ...;
      if (this.tileCache[layerId] && this.tileCache[layerId][cacheKey]) {
        return this.tileCache[layerId][cacheKey];
      }
      const response = await fetch('/api/weather/tiles', {...});
      if (!response.ok) { throw new Error(...); }
      const metadata = await response.json();
      if (!this.tileCache[layerId]) { this.tileCache[layerId] = {}; }
      this.tileCache[layerId][cacheKey] = metadata;
      return metadata;
    } catch (error) { ...return the fallback metadata... }
  }
  \<close>
  It returns the cache entry as it finds it.
\<close>

definition getTileMetadata :: "client_env \<Rightarrow> string \<Rightarrow> ZoomCategory \<Rightarrow> wstate \<Rightarrow> tile_entry \<times> wstate" where
  "getTileMetadata ext layerId zc s =
     (let cacheKey = metadata_cache_key layerId zc
      in case tileCache s layerId cacheKey of
           Some entry \<Rightarrow> (entry, s)
         | None \<Rightarrow>
             (case tilesEndpoint ext layerId zc of
                Some metadata \<Rightarrow>
                  (Metadata metadata,
                   s\<lparr>tileCache := (tileCache s)(layerId :=
                        (tileCache s layerId)(cacheKey \<mapsto> Metadata metadata))\<rparr>)
              | None \<Rightarrow> (Metadata (fallbackMetadata layerId zc), s)))"

text \<open>
  The source made from metadata:
  \<^verbatim>\<open>{ type: 'raster', tiles: [m.url], tileSize: m.tileSize, attribution: m.attribution }\<close>
\<close>

fun source_of_entry :: "tile_entry \<Rightarrow> map_source" where
  "source_of_entry (Metadata m) =
     \<lparr>source_type = ''raster'', source_tiles = [meta_url m],
      source_tileSize = Some (meta_tileSize m)\<rparr>"
| "source_of_entry (Prefetched t) =
     \<lparr>source_type = ''raster'', source_tiles = [None], source_tileSize = None\<rparr>"

definition transition_layer :: "string \<Rightarrow> (real \<times> real) list \<Rightarrow> map_layer" where
  "transition_layer source stops =
     \<lparr>layer_type = ''raster'', layer_source = source, layer_visibility = Visible,
      raster_opacity = Some (InterpolateLinearZoom stops)\<rparr>"

definition transitionId :: "string \<Rightarrow> ZoomCategory \<Rightarrow> ZoomCategory \<Rightarrow> string" where
  "transitionId layerId fromZoomCategory toZoomCategory =
     layerId @ ''-transition-'' @ category_name fromZoomCategory @ ''-'' @
     category_name toZoomCategory"

definition tiles_source_id :: "string \<Rightarrow> ZoomCategory \<Rightarrow> string" where
  "tiles_source_id layerId c = layerId @ ''-'' @ lower_name c @ ''-tiles''"

text \<open>
  \<^verbatim>\<open>
  static async createTransitionLayer(layerId, fromZoomCategory, toZoomCategory) {
    const transitionId = `${layerId}-transition-${fromZoomCategory}-${toZoomCategory}`;
    if (map.getLayer(`${transitionId}-from`)) { map.removeLayer(`${transitionId}-from`); }
    if (map.getLayer(`${transitionId}-to`)) { map.removeLayer(`${transitionId}-to`); }
    if (map.getSource(`${layerId}-${fromZoomCategory.toLowerCase()}-tiles`)) { map.removeSource(...); }
    if (map.getSource(`${layerId}-${toZoomCategory.toLowerCase()}-tiles`)) { map.removeSource(...); }
    const [fromMetadata, toMetadata] = await Promise.all([
      this.getTileMetadata(layerId, fromZoomCategory), this.getTileMetadata(layerId, toZoomCategory)]);
    map.addSource(fromSourceId, {...fromMetadata...});
    map.addSource(toSourceId, {...toMetadata...});
    const fromZoom = this.zoomLevels[fromZoomCategory].max;
    const toZoom = this.zoomLevels[toZoomCategory].min;
    map.addLayer({ id: `${transitionId}-from`, type: 'raster', source: fromSourceId,
      paint: { 'raster-opacity': ['interpolate', ['linear'], ['zoom'],
                                  fromZoom - 0.5, 1, toZoom + 0.5, 0], ... } });
    map.addLayer({ id: `${transitionId}-to`, type: 'raster', source: toSourceId,
      paint: { 'raster-opacity': ['interpolate', ['linear'], ['zoom'],
                                  fromZoom - 0.5, 0, toZoom + 0.5, 1], ... } });
    return [fromLayerId, toLayerId];
  }
  \<close>
  The two metadata requests are taken one after the other, and nothing else runs while
  they are awaited. \<open>Inl\<close>: the promise rejects.
\<close>

definition fromStops :: "ZoomCategory \<Rightarrow> ZoomCategory \<Rightarrow> (real \<times> real) list" where
  "fromStops a b =
     [(zmax (zoomLevels a) - 1 / 2, 1), (zmin (zoomLevels b) + 1 / 2, 0)]"

definition toStops :: "ZoomCategory \<Rightarrow> ZoomCategory \<Rightarrow> (real \<times> real) list" where
  "toStops a b =
     [(zmax (zoomLevels a) - 1 / 2, 0), (zmin (zoomLevels b) + 1 / 2, 1)]"

definition createTransitionLayer ::
  "client_env \<Rightarrow> string \<Rightarrow> ZoomCategory \<Rightarrow> ZoomCategory \<Rightarrow> string list comp" where
  "createTransitionLayer ext layerId fromZoomCategory toZoomCategory s =
     (let tid = transitionId layerId fromZoomCategory toZoomCategory;
          fromSourceId = tiles_source_id layerId fromZoomCategory;
          toSourceId = tiles_source_id layerId toZoomCategory;
          s1 = removeSource toSourceId (removeSource fromSourceId
                 (removeLayer (tid @ ''-to'') (removeLayer (tid @ ''-from'') s)));
          (fromMetadata, s2) = getTileMetadata ext layerId fromZoomCategory s1;
          (toMetadata, s3) = getTileMetadata ext layerId toZoomCategory s2
      in then_do (addSource fromSourceId (source_of_entry fromMetadata))
        (then_do (addSource toSourceId (source_of_entry toMetadata))
        (then_do (addLayer (tid @ ''-from'')
                    (transition_layer fromSourceId (fromStops fromZoomCategory toZoomCategory)))
        (then_do (addLayer (tid @ ''-to'')
                    (transition_layer toSourceId (toStops fromZoomCategory toZoomCategory)))
        (ret [tid @ ''-from'', tid @ ''-to''])))) s3)"

text \<open>
  Modelled from the spec: the value of a paint opacity at a zoom, which the map rendering
  library computes ("an opacity that is a piecewise-linear function of the live zoom
  value"). A constant is its value. An interpolation needs stops whose inputs ascend
  strictly; below the first stop it has the first output, above the last the last, and
  between two stops it is linear. With stops that do not ascend the expression is not valid
  and has no value.
\<close>

fun ascending :: "(real \<times> real) list \<Rightarrow> bool" where
  "ascending [] = True"
| "ascending [p] = True"
| "ascending (p # q # ps) = (fst p < fst q \<and> ascending (q # ps))"

fun interpolate :: "(real \<times> real) list \<Rightarrow> real \<Rightarrow> real" where
  "interpolate [] z = 0"
| "interpolate [(x, y)] z = y"
| "interpolate ((x1, y1) # (x2, y2) # ps) z =
     (if z \<le> x1 then y1
      else if z < x2 then y1 + (z - x1) / (x2 - x1) * (y2 - y1)
      else interpolate ((x2, y2) # ps) z)"

fun opacity_at :: "opacity \<Rightarrow> real \<Rightarrow> real option" where
  "opacity_at (Constant c) z = Some c"
| "opacity_at (InterpolateLinearZoom stops) z =
     (if stops \<noteq> [] \<and> ascending stops then Some (interpolate stops z) else None)"

text \<open>The opacity of a layer of the map at a zoom.\<close>

definition layer_opacity_at :: "wstate \<Rightarrow> string \<Rightarrow> real \<Rightarrow> real option" where
  "layer_opacity_at s lid z =
     (case map_layers (mapgl s) lid of
        None \<Rightarrow> None
      | Some l \<Rightarrow> (case raster_opacity l of None \<Rightarrow> None | Some op \<Rightarrow> opacity_at op z))"

subsection \<open>Sample states\<close>

definition empty_map :: mapbox where
  "empty_map =
     \<lparr>map_layers = Map.empty, map_sources = Map.empty, map_zoom = 5,
      map_bounds = \<lparr>sw = \<lparr>lng = 0, latitude = 10\<rparr>, ne = \<lparr>lng = 10, latitude = 20\<rparr>\<rparr>,
      map_center = \<lparr>lng = 5, latitude = 15\<rparr>, rejected = []\<rparr>"

text \<open>The state \<^verbatim>\<open>initWeatherControls\<close> sets the flags to, before any viewport is known.\<close>

definition initial_state :: wstate where
  "initial_state =
     \<lparr>weatherLayers = Map.empty,
      activeWeatherLayers = [(''temperature'', False), (''cities'', False)],
      currentZoomLevel = 5,
      tileCache = (\<lambda>layerId. Map.empty),
      currentViewport = \<lparr>vp_bounds = None, vp_center = None, vp_zoom = 0\<rparr>,
      prefetchQueue = [],
      prefetchInProgress = False,
      mapgl = empty_map,
      clock_ms = 0,
      timers = [],
      pendingFetches = [],
      consumerLog = []\<rparr>"

definition sample_bounds :: extended_bounds where
  "sample_bounds = \<lparr>west = - 2, south = 8, east = 12, north = 22\<rparr>"

definition old_task :: prefetch_task where
  "old_task =
     \<lparr>task_layerId = ''precipitation'', task_bounds = Some sample_bounds,
      task_zoomCategory = REGIONAL\<rparr>"

text \<open>
  Temperature, and with it the city labels, is active; the consumer is at work on a task
  and one more task waits in the queue.
\<close>

definition busy_state :: wstate where
  "busy_state =
     initial_state
       \<lparr>activeWeatherLayers := [(''temperature'', True), (''cities'', True), (''wind'', False)],
        currentViewport :=
          \<lparr>vp_bounds = Some (map_bounds empty_map), vp_center = Some (map_center empty_map),
           vp_zoom = 5\<rparr>,
        prefetchQueue := [old_task],
        prefetchInProgress := True,
        timers := [(100, ProcessPrefetchQueue)]\<rparr>"

definition sample_env :: client_env where
  "sample_env = \<lparr>createForecastLayer = (\<lambda>layerId zc. done_ok),
                 tilesEndpoint = (\<lambda>layerId zc. None)\<rparr>"





subsection \<open>What a refresh is to build\<close>


subsection \<open>What the consumer loop is to do\<close>




definition broken_task :: prefetch_task where
  "broken_task =
     \<lparr>task_layerId = ''wind'', task_bounds = None, task_zoomCategory = GLOBAL\<rparr>"

definition cities_task :: prefetch_task where
  "cities_task =
     \<lparr>task_layerId = ''cities'', task_bounds = Some sample_bounds, task_zoomCategory = REGIONAL\<rparr>"

text \<open>An idle consumer with three tasks queued and no timer pending.\<close>

definition queued_state :: wstate where
  "queued_state = initial_state\<lparr>prefetchQueue := [old_task, broken_task, cities_task]\<rparr>"

section \<open>Properties\<close>

subsection \<open>Zoom categories\<close>

lemma getZoomCategory_cases:
  "getZoomCategory z = (if z \<ge> 8 then LOCAL else if z \<ge> 3 then REGIONAL else GLOBAL)"
  by (simp add: getZoomCategory_def)

lemma getZoomCategory_mono:
  "z \<le> z' \<Longrightarrow> localness (getZoomCategory z) \<le> localness (getZoomCategory z')"
  by (simp add: getZoomCategory_cases)

lemma in_band_iff:
  "0 \<le> z \<Longrightarrow> z \<le> 22 \<Longrightarrow> in_band c z \<longleftrightarrow> c = getZoomCategory z"
  by (cases c) (auto simp: in_band_def getZoomCategory_cases)

text \<open>
  Claim C1. The classifier returns LOCAL from zoom 8 on, REGIONAL on \<open>[3, 8)\<close> and GLOBAL
  below 3; it is a total function, monotone in how local its answer is; every zoom in
  \<open>[0, 22]\<close> lies in exactly one band, the band of its category; and the five sample
  zooms 2, 3, 7.9, 8 and 15 are classified GLOBAL, REGIONAL, REGIONAL, LOCAL, LOCAL.
\<close>

theorem C1_getZoomCategory_bands:
  "(\<forall>z. z \<ge> 8 \<longrightarrow> getZoomCategory z = LOCAL) \<and>
   (\<forall>z. 3 \<le> z \<and> z < 8 \<longrightarrow> getZoomCategory z = REGIONAL) \<and>
   (\<forall>z. z < 3 \<longrightarrow> getZoomCategory z = GLOBAL) \<and>
   (\<forall>z z'. z \<le> z' \<longrightarrow> localness (getZoomCategory z) \<le> localness (getZoomCategory z')) \<and>
   (\<forall>z. 0 \<le> z \<and> z \<le> 22 \<longrightarrow>
      in_band (getZoomCategory z) z \<and> (\<forall>c. in_band c z \<longrightarrow> c = getZoomCategory z)) \<and>
   getZoomCategory 2 = GLOBAL \<and> getZoomCategory 3 = REGIONAL \<and>
   getZoomCategory (79 / 10) = REGIONAL \<and> getZoomCategory 8 = LOCAL \<and>
   getZoomCategory 15 = LOCAL"
proof (intro conjI allI impI)
  fix z z' :: real
  assume "z \<le> z'"
  then show "localness (getZoomCategory z) \<le> localness (getZoomCategory z')"
    by (rule getZoomCategory_mono)
next
  fix z :: real
  assume "0 \<le> z \<and> z \<le> 22"
  then show "in_band (getZoomCategory z) z"
    by (simp add: in_band_iff)
next
  fix z :: real and c
  assume "0 \<le> z \<and> z \<le> 22" and "in_band c z"
  then show "c = getZoomCategory z"
    by (simp add: in_band_iff)
qed (simp_all add: getZoomCategory_cases)

theorem C1_getZoomCategory_bands_witness:
  "getZoomCategory 9 = LOCAL \<and> getZoomCategory 5 = REGIONAL \<and> getZoomCategory 1 = GLOBAL \<and>
   localness (getZoomCategory 2) \<le> localness (getZoomCategory 9) \<and>
   in_band (getZoomCategory 22) 22 \<and> in_band LOCAL 22 \<and> LOCAL = getZoomCategory 22"
proof -
  note c = C1_getZoomCategory_bands
  have a: "getZoomCategory 9 = LOCAL"
    using c by simp
  have b: "getZoomCategory 5 = REGIONAL"
    using c by simp
  have g: "getZoomCategory 1 = GLOBAL"
    using c by simp
  have m: "localness (getZoomCategory 2) \<le> localness (getZoomCategory 9)"
    using c by simp
  have "(0::real) \<le> 22 \<and> (22::real) \<le> 22 \<longrightarrow>
      in_band (getZoomCategory 22) 22 \<and> (\<forall>c. in_band c 22 \<longrightarrow> c = getZoomCategory 22)"
    using c by blast
  then have p: "in_band (getZoomCategory 22) 22"
    and u: "\<forall>c. in_band c 22 \<longrightarrow> c = getZoomCategory 22"
    by simp_all
  have q: "in_band LOCAL 22"
    by (simp add: in_band_def)
  have r: "LOCAL = getZoomCategory 22"
    using u q by blast
  from a b g m p q r show ?thesis by simp
qed

subsection \<open>Current weather: fallback and cache\<close>

lemma bindE_Inr [simp]: "bindE (Inr v) f = f v"
  by (simp add: bindE_def)

lemma bindE_Inl [simp]: "bindE (Inl e) f = Inl e"
  by (simp add: bindE_def)

lemma bindE_eq_Inr: "bindE m f = Inr y \<longleftrightarrow> (\<exists>v. m = Inr v \<and> f v = Inr y)"
  by (cases m) simp_all

lemma normalizeOpenWeatherData_is_object:
  "normalizeOpenWeatherData body = Inr n \<Longrightarrow> \<exists>kvs. n = JObj kvs"
  unfolding normalizeOpenWeatherData_def bindE_eq_Inr by blast


lemma getCurrentWeather_miss:
  assumes "\<not> truthy (fst (cache_get (weatherCache s) (current_weather_key env lat lon) (clock 0)))"
  shows "getCurrentWeather env k clock upstream lat lon s =
     (let c1 = snd (cache_get (weatherCache s) (current_weather_key env lat lon) (clock 0));
          url = current_weather_url env k lat lon;
          s2 = s\<lparr>weatherCache := c1, requests := requests s @ [url]\<rparr>
      in case bindE (axios_get (upstream url)) normalizeOpenWeatherData of
           Inr n \<Rightarrow>
             (Inr n, s2\<lparr>weatherCache :=
                          cache_set c1 (current_weather_key env lat lon) n stdTTL (clock 1)\<rparr>)
         | Inl e \<Rightarrow> (Inr (getFakeWeatherData (\<lambda>j. clock (Suc j)) lat lon), s2))"
  using assms
  by (simp add: getCurrentWeather_def Let_def split_beta split: sum.splits)

lemma getCurrentWeather_hit:
  assumes "truthy (fst (cache_get (weatherCache s) (current_weather_key env lat lon) (clock 0)))"
  shows "getCurrentWeather env k clock upstream lat lon s =
     (Inr (fst (cache_get (weatherCache s) (current_weather_key env lat lon) (clock 0))),
      s\<lparr>weatherCache :=
          snd (cache_get (weatherCache s) (current_weather_key env lat lon) (clock 0))\<rparr>)"
  using assms by (simp add: getCurrentWeather_def Let_def split_beta)


lemma cold_service_miss:
  "\<not> truthy (fst (cache_get (weatherCache cold_service) key t))"
  by (simp add: cold_service_def cache_get_def)

lemma normalize_owm_body_ex:
  "\<exists>n. normalizeOpenWeatherData owm_body_ex = Inr n"
  by (simp add: normalizeOpenWeatherData_def owm_body_ex_def)







text \<open>
  Claim C3, as stated, fails: the placeholder of a failed fetch is not stored, so with a
  dead network two successive fetches for (10, 20) on a cold cache both ask upstream.
\<close>

theorem C3_two_calls_counterexample:
  "length (requests (snd (getCurrentWeather env_ex JUndefined (\<lambda>j. 0) dead_network
      (JNum 10) (JNum 20)
      (snd (getCurrentWeather env_ex JUndefined (\<lambda>j. 0) dead_network
         (JNum 10) (JNum 20) cold_service))))) = 2 \<and>
   weatherCache (snd (getCurrentWeather env_ex JUndefined (\<lambda>j. 0) dead_network
         (JNum 10) (JNum 20) cold_service))
     (current_weather_key env_ex (JNum 10) (JNum 20)) = None"
  by (simp add: getCurrentWeather_def Let_def cold_service_def dead_network_def cache_get_def)

text \<open>
  Claim C3, amended. When nothing usable is cached for the coordinates and the first
  fetch gets a 2xx answer whose body the normalizer accepts, the first fetch stores the
  normalized result under the key of the coordinates, and a second fetch for the same
  coordinates whose lookup happens before the entry expires (1800 s after it was stored)
  returns that value without asking upstream: the two fetches together add exactly one
  request to the log.
\<close>

theorem C3_second_fetch_served_from_cache:
  assumes miss:
    "\<not> truthy (fst (cache_get (weatherCache s) (current_weather_key env lat lon) (clock1 0)))"
  and ok: "upstream1 (current_weather_url env k lat lon) = Response status body"
    "200 \<le> status" "status < 300"
  and norm: "normalizeOpenWeatherData body = Inr n"
  and ttl: "clock2 0 \<le> clock1 1 + stdTTL * 1000"
  and first: "getCurrentWeather env k clock1 upstream1 lat lon s = (r1, s1)"
  and second: "getCurrentWeather env k clock2 upstream2 lat lon s1 = (r2, s2)"
  shows "r1 = Inr n \<and> r2 = Inr n \<and>
    weatherCache s1 (current_weather_key env lat lon) = Some (n, clock1 1 + stdTTL * 1000) \<and>
    requests s1 = requests s @ [current_weather_url env k lat lon] \<and>
    requests s2 = requests s1"
proof -
  let ?key = "current_weather_key env lat lon"
  from norm obtain kvs where n: "n = JObj kvs"
    using normalizeOpenWeatherData_is_object by blast
  have b: "bindE (axios_get (upstream1 (current_weather_url env k lat lon)))
      normalizeOpenWeatherData = Inr n"
    using ok norm by simp
  from first have r1: "r1 = Inr n"
    and c1: "weatherCache s1 ?key = Some (n, clock1 1 + stdTTL * 1000)"
    and q1: "requests s1 = requests s @ [current_weather_url env k lat lon]"
    using miss by (auto simp: getCurrentWeather_miss Let_def b cache_set_def stdTTL_def)
  have g: "cache_get (weatherCache s1) ?key (clock2 0) = (n, weatherCache s1)"
    using c1 ttl by (simp add: cache_get_def stdTTL_def)
  then have hit: "truthy (fst (cache_get (weatherCache s1) ?key (clock2 0)))"
    by (simp add: n)
  from second have "r2 = Inr n" and "requests s2 = requests s1"
    using hit by (auto simp: getCurrentWeather_hit g)
  with r1 c1 q1 show ?thesis by simp
qed

theorem C3_second_fetch_served_from_cache_witness:
  "\<exists>n. normalizeOpenWeatherData owm_body_ex = Inr n \<and>
     fst (getCurrentWeather env_ex JUndefined (\<lambda>j. 5) dead_network (JNum 10) (JNum 20)
       (snd (getCurrentWeather env_ex JUndefined (\<lambda>j. 0) live_network (JNum 10) (JNum 20)
          cold_service))) = Inr n \<and>
     requests (snd (getCurrentWeather env_ex JUndefined (\<lambda>j. 5) dead_network (JNum 10) (JNum 20)
       (snd (getCurrentWeather env_ex JUndefined (\<lambda>j. 0) live_network (JNum 10) (JNum 20)
          cold_service)))) =
       [current_weather_url env_ex JUndefined (JNum 10) (JNum 20)]"
proof -
  obtain n where n: "normalizeOpenWeatherData owm_body_ex = Inr n"
    using normalize_owm_body_ex ..
  obtain r1 s1 where f: "getCurrentWeather env_ex JUndefined (\<lambda>j. 0) live_network
      (JNum 10) (JNum 20) cold_service = (r1, s1)"
    by (cases "getCurrentWeather env_ex JUndefined (\<lambda>j. 0) live_network
      (JNum 10) (JNum 20) cold_service")
  obtain r2 s2 where g: "getCurrentWeather env_ex JUndefined (\<lambda>j. 5) dead_network
      (JNum 10) (JNum 20) s1 = (r2, s2)"
    by (cases "getCurrentWeather env_ex JUndefined (\<lambda>j. 5) dead_network
      (JNum 10) (JNum 20) s1")
  have u: "live_network (current_weather_url env_ex JUndefined (JNum 10) (JNum 20))
      = Response 200 owm_body_ex"
    by (simp add: live_network_def)
  have t: "(\<lambda>j. 5) (0::nat) \<le> (\<lambda>j. 0) (1::nat) + stdTTL * 1000"
    by (simp add: stdTTL_def)
  have m: "\<not> truthy (fst (cache_get (weatherCache cold_service)
      (current_weather_key env_ex (JNum 10) (JNum 20)) ((\<lambda>j. 0) (0::nat))))"
    by (rule cold_service_miss)
  have "r1 = Inr n \<and> r2 = Inr n \<and>
      weatherCache s1 (current_weather_key env_ex (JNum 10) (JNum 20))
        = Some (n, (\<lambda>j. 0) (1::nat) + stdTTL * 1000) \<and>
      requests s1 = requests cold_service @ [current_weather_url env_ex JUndefined (JNum 10) (JNum 20)] \<and>
      requests s2 = requests s1"
    by (rule C3_second_fetch_served_from_cache [where s = cold_service and env = env_ex
      and k = JUndefined and ?clock1.0 = "\<lambda>j. 0" and ?clock2.0 = "\<lambda>j. 5"
      and ?upstream1.0 = live_network and ?upstream2.0 = dead_network
      and lat = "JNum 10" and lon = "JNum 20" and status = 200 and body = owm_body_ex,
      OF m u _ _ n t f g]) simp_all
  then show ?thesis
    using n f g by (auto simp: cold_service_def)
qed

subsection \<open>Hurricane and disaster normalizers\<close>

text \<open>
  Claim C10, as stated, fails: a payload that is \<^verbatim>\<open>null\<close> has no top-level array, and on
  it both normalizers throw, reading \<^verbatim>\<open>data.activeStorms\<close> and \<^verbatim>\<open>data.events\<close>.
\<close>

theorem C10_null_payload_counterexample:
  "normalizeHurricaneData env_ex (\<lambda>i. 0) JNull = Inl TypeError \<and>
   normalizeDisasterData env_ex JNull = Inl TypeError"
  by (simp add: normalizeHurricaneData_def normalizeDisasterData_def)

text \<open>
  Claim C10, amended. For every upstream payload other than \<^verbatim>\<open>null\<close> and \<^verbatim>\<open>undefined\<close>
  whose member \<^verbatim>\<open>activeStorms\<close> (for hurricanes), respectively \<^verbatim>\<open>events\<close> (for disasters),
  is absent or is no array, the normalizer returns the empty array and does not throw.
  Other malformed fields still throw: a storm without \<^verbatim>\<open>movement\<close>, an event without
  \<^verbatim>\<open>categories\<close>.
\<close>

theorem C10_missing_array_gives_empty:
  assumes "data \<noteq> JNull" and "data \<noteq> JUndefined"
  shows
    "(\<exists>a. getProp data ''activeStorms'' = Inr a \<and>
        (\<not> isArray a \<longrightarrow> normalizeHurricaneData env clock data = Inr (JArr []))) \<and>
     (\<exists>b. getProp data ''events'' = Inr b \<and>
        (\<not> isArray b \<longrightarrow> normalizeDisasterData env data = Inr (JArr []))) \<and>
     normalizeHurricaneData env clock (JObj [(''activeStorms'', JArr [JObj []])]) = Inl TypeError \<and>
     normalizeDisasterData env (JObj [(''events'', JArr [JObj []])]) = Inl TypeError"
proof (intro conjI)
  show "\<exists>a. getProp data ''activeStorms'' = Inr a \<and>
      (\<not> isArray a \<longrightarrow> normalizeHurricaneData env clock data = Inr (JArr []))"
    using assms by (cases data) (simp_all add: normalizeHurricaneData_def)
  show "\<exists>b. getProp data ''events'' = Inr b \<and>
      (\<not> isArray b \<longrightarrow> normalizeDisasterData env data = Inr (JArr []))"
    using assms by (cases data) (simp_all add: normalizeDisasterData_def)
  show "normalizeHurricaneData env clock (JObj [(''activeStorms'', JArr [JObj []])])
      = Inl TypeError"
    by (simp add: normalizeHurricaneData_def normalizeStorm_def)
  show "normalizeDisasterData env (JObj [(''events'', JArr [JObj []])]) = Inl TypeError"
    by (simp add: normalizeDisasterData_def normalizeEvent_def firstGeometry_def)
qed

theorem C10_missing_array_gives_empty_witness:
  "getProp (JObj [(''status'', JStr ''ok'')]) ''activeStorms'' = Inr JUndefined \<and>
   normalizeHurricaneData env_ex (\<lambda>i. 0) (JObj [(''status'', JStr ''ok'')]) = Inr (JArr []) \<and>
   getProp (JObj [(''events'', JStr ''none'')]) ''events'' = Inr (JStr ''none'') \<and>
   normalizeDisasterData env_ex (JObj [(''events'', JStr ''none'')]) = Inr (JArr [])"
proof -
  have a: "getProp (JObj [(''status'', JStr ''ok'')]) ''activeStorms'' = Inr JUndefined"
    by simp
  have b: "getProp (JObj [(''events'', JStr ''none'')]) ''events'' = Inr (JStr ''none'')"
    by simp
  have h: "normalizeHurricaneData env_ex (\<lambda>i. 0) (JObj [(''status'', JStr ''ok'')]) = Inr (JArr [])"
    using C10_missing_array_gives_empty [of "JObj [(''status'', JStr ''ok'')]" env_ex "\<lambda>i. 0"] a
    by auto
  have d: "normalizeDisasterData env_ex (JObj [(''events'', JStr ''none'')]) = Inr (JArr [])"
    using C10_missing_array_gives_empty [of "JObj [(''events'', JStr ''none'')]" env_ex "\<lambda>i. 0"] b
    by auto
  from a b h d show ?thesis by simp
qed

subsection \<open>Wildfire normalizer\<close>

lemma mapiE_total:
  assumes "\<And>i x. x \<in> set xs \<Longrightarrow> \<exists>y. f i x = Inr y"
  shows "\<exists>ys. mapiE f k xs = Inr ys \<and> length ys = length xs \<and>
           (\<forall>j<length xs. f (k + j) (xs ! j) = Inr (ys ! j))"
  using assms
proof (induction xs arbitrary: k)
  case Nil
  then show ?case by simp
next
  case (Cons x xs)
  from Cons.prems obtain y where y: "f k x = Inr y"
    by (meson list.set_intros(1))
  from Cons.IH [of "Suc k"] Cons.prems obtain ys where
    ys: "mapiE f (Suc k) xs = Inr ys" "length ys = length xs"
      "\<forall>j<length xs. f (Suc k + j) (xs ! j) = Inr (ys ! j)"
    by (meson list.set_intros(2))
  have "\<forall>j<length (x # xs). f (k + j) ((x # xs) ! j) = Inr ((y # ys) ! j)"
  proof (intro allI impI)
    fix j assume "j < length (x # xs)"
    then show "f (k + j) ((x # xs) ! j) = Inr ((y # ys) ! j)"
      using y ys(3) by (cases j) simp_all
  qed
  with y ys show ?case by simp
qed

lemma at_index_defined:
  "at_index values i \<noteq> JUndefined \<Longrightarrow> \<exists>t. at_index values i = JStr t"
  by (auto simp: at_index_def split: option.splits if_splits)

lemma normalizeWildfireLine_fields:
  assumes "at_index (split_on (CHR '','') line) (timeIndex cols) = JStr time"
  shows "\<exists>r. normalizeWildfireLine env cols now k line = Inr r \<and>
    getPath r [P ''location'', P ''lat'']
      = Inr (parseFloat (at_index (split_on (CHR '','') line) (latIndex cols))) \<and>
    getPath r [P ''location'', P ''lon'']
      = Inr (parseFloat (at_index (split_on (CHR '','') line) (lonIndex cols))) \<and>
    getProp r ''brightness''
      = Inr (parseFloat (at_index (split_on (CHR '','') line) (brightnessIndex cols))) \<and>
    getProp r ''timestamp''
      = Inr (dateTime env (JStr
          (toStr env (at_index (split_on (CHR '','') line) (dateIndex cols)) @ '' '' @
           take 2 time @ '':'' @ take 2 (drop 2 time))))"
  using assms
  by (simp add: normalizeWildfireLine_def Let_def wildfire_date_text_def substring_def)

lemma indexOf_member:
  "x \<in> set ys \<Longrightarrow> \<exists>n. indexOf ys x = Some n \<and> n < length ys \<and> ys ! n = x"
  by (induction ys) auto

lemma split_sample:
  "split_on newline (firms_header @ newline # firms_row) = [firms_header, firms_row]"
  by (simp add: firms_header_def firms_row_def newline_def)

lemma cols_sample:
  "wildfire_columns_of (split_on (CHR '','') firms_header) =
     \<lparr>latIndex = Some 0, lonIndex = Some 1, dateIndex = Some 2, timeIndex = Some 3,
      brightnessIndex = Some 4, confidenceIndex = Some 5\<rparr>"
  by (simp add: firms_header_def wildfire_columns_of_def)

lemma row_sample:
  "split_on (CHR '','') firms_row = [''10.5'', ''20.5'', ''2024-01-01'', ''1345'', ''320.1'', ''85'']"
  by (simp add: firms_row_def)

lemma trim_sample: "trim firms_row \<noteq> []"
  by (simp add: firms_row_def trim_def is_space_def)

lemma pf1: "parseFloat_str ''10.5'' = JNum (21 / 2)"
  by (simp add: parseFloat_str_def parse_decimal_def parse_exponent_def trimStart_def
      is_space_def is_digit_def digits_val_def digit_val_def scale10_def)

lemma pf2: "parseFloat_str ''20.5'' = JNum (41 / 2)"
  by (simp add: parseFloat_str_def parse_decimal_def parse_exponent_def trimStart_def
      is_space_def is_digit_def digits_val_def digit_val_def scale10_def)

lemma pf3: "parseFloat_str ''320.1'' = JNum (3201 / 10)"
  by (simp add: parseFloat_str_def parse_decimal_def parse_exponent_def trimStart_def
      is_space_def is_digit_def digits_val_def digit_val_def scale10_def)

text \<open>
  Claim C9, as stated, fails: a data line that is not empty but has no field in the
  \<^verbatim>\<open>acq_time\<close> column is not mapped to a record; \<^verbatim>\<open>values[timeIndex].substring\<close> throws on
  it, and with it the whole normalizer.
\<close>

theorem C9_short_row_counterexample:
  "normalizeWildfireData env_ex (\<lambda>i. 0) (JStr (firms_header @ [newline] @ ''10.5,20.5''))
     = Inl TypeError"
  by (simp add: normalizeWildfireData_def firms_header_def newline_def wildfire_rows_def
      trim_def is_space_def wildfire_columns_of_def normalizeWildfireLine_def at_index_def)

text \<open>
  Claim C9, amended. For every CSV text whose header line names the six columns and whose
  data lines, those that are not empty after trimming, each have a field in the
  \<^verbatim>\<open>acq_time\<close> column: the normalizer returns one record per such line, in order, skipping
  the lines that are empty after trimming; the record's latitude, longitude and brightness
  are \<^verbatim>\<open>parseFloat\<close> of the line's fields in the columns named \<^verbatim>\<open>latitude\<close>, \<^verbatim>\<open>longitude\<close> and
  \<^verbatim>\<open>bright_ti4\<close>, and its timestamp is the time value of the date text made of the
  \<^verbatim>\<open>acq_date\<close> field, a space, the first two characters of the \<^verbatim>\<open>acq_time\<close> field, a colon
  and its next two characters. The sample line yields latitude 10.5, longitude 20.5,
  brightness 320.1 and the time value of \<^verbatim>\<open>2024-01-01 13:45\<close>.
\<close>

theorem C9_wildfire_rows:
  assumes csv: "split_on newline text = header # rest"
  and hdr: "set [''latitude'', ''longitude'', ''acq_date'', ''acq_time'', ''bright_ti4'',
                 ''confidence''] \<subseteq> set (split_on (CHR '','') header)"
  and rows: "\<forall>line \<in> set rest. trim line \<noteq> [] \<longrightarrow>
      at_index (split_on (CHR '','') line)
        (indexOf (split_on (CHR '','') header) ''acq_time'') \<noteq> JUndefined"
  shows
    "\<exists>records.
       normalizeWildfireData env clock (JStr text) = Inr (JArr records) \<and>
       length records = length (filter (\<lambda>line. trim line \<noteq> []) rest) \<and>
       (\<forall>j < length records.
          \<exists>time.
            at_index (split_on (CHR '','') (filter (\<lambda>line. trim line \<noteq> []) rest ! j))
              (indexOf (split_on (CHR '','') header) ''acq_time'') = JStr time \<and>
            getPath (records ! j) [P ''location'', P ''lat''] =
              Inr (parseFloat
                (at_index (split_on (CHR '','') (filter (\<lambda>line. trim line \<noteq> []) rest ! j))
                   (indexOf (split_on (CHR '','') header) ''latitude''))) \<and>
            getPath (records ! j) [P ''location'', P ''lon''] =
              Inr (parseFloat
                (at_index (split_on (CHR '','') (filter (\<lambda>line. trim line \<noteq> []) rest ! j))
                   (indexOf (split_on (CHR '','') header) ''longitude''))) \<and>
            getProp (records ! j) ''brightness'' =
              Inr (parseFloat
                (at_index (split_on (CHR '','') (filter (\<lambda>line. trim line \<noteq> []) rest ! j))
                   (indexOf (split_on (CHR '','') header) ''bright_ti4''))) \<and>
            getProp (records ! j) ''timestamp'' =
              Inr (dateTime env (JStr
                (toStr env
                   (at_index (split_on (CHR '','') (filter (\<lambda>line. trim line \<noteq> []) rest ! j))
                      (indexOf (split_on (CHR '','') header) ''acq_date'')) @
                 '' '' @ take 2 time @ '':'' @ take 2 (drop 2 time))))) \<and>
       (\<forall>name \<in> set [''latitude'', ''longitude'', ''acq_date'', ''acq_time'', ''bright_ti4'',
                       ''confidence''].
          \<exists>n. indexOf (split_on (CHR '','') header) name = Some n \<and>
               n < length (split_on (CHR '','') header) \<and>
               split_on (CHR '','') header ! n = name) \<and>
       (\<exists>r. normalizeWildfireData env clock (JStr (firms_header @ [newline] @ firms_row))
               = Inr (JArr [r]) \<and>
            getPath r [P ''location'', P ''lat''] = Inr (JNum (21 / 2)) \<and>
            getPath r [P ''location'', P ''lon''] = Inr (JNum (41 / 2)) \<and>
            getProp r ''brightness'' = Inr (JNum (3201 / 10)) \<and>
            getProp r ''timestamp'' = Inr (dateTime env (JStr ''2024-01-01 13:45'')))"
proof -
  let ?hs = "split_on (CHR '','') header"
  let ?cols = "wildfire_columns_of ?hs"
  let ?kept = "filter (\<lambda>line. trim line \<noteq> []) rest"
  let ?f = "\<lambda>i line. normalizeWildfireLine env ?cols (clock i) i line"
  have time: "\<exists>t. at_index (split_on (CHR '','') line) (timeIndex ?cols) = JStr t"
    if "line \<in> set ?kept" for line
    using that rows at_index_defined by (auto simp: wildfire_columns_of_def)
  have "\<And>i x. x \<in> set ?kept \<Longrightarrow> \<exists>y. ?f i x = Inr y"
    using time normalizeWildfireLine_fields by blast
  from mapiE_total [of ?kept ?f 0, OF this] obtain records where
    recs: "mapiE ?f 0 ?kept = Inr records" "length records = length ?kept"
      "\<forall>j<length ?kept. ?f j (?kept ! j) = Inr (records ! j)"
    by auto
  have run: "normalizeWildfireData env clock (JStr text) = Inr (JArr records)"
    by (simp add: normalizeWildfireData_def csv wildfire_rows_def recs(1))
  have each: "\<exists>t.
      at_index (split_on (CHR '','') (?kept ! j)) (indexOf ?hs ''acq_time'') = JStr t \<and>
      getPath (records ! j) [P ''location'', P ''lat''] =
        Inr (parseFloat (at_index (split_on (CHR '','') (?kept ! j)) (indexOf ?hs ''latitude''))) \<and>
      getPath (records ! j) [P ''location'', P ''lon''] =
        Inr (parseFloat (at_index (split_on (CHR '','') (?kept ! j)) (indexOf ?hs ''longitude''))) \<and>
      getProp (records ! j) ''brightness'' =
        Inr (parseFloat (at_index (split_on (CHR '','') (?kept ! j)) (indexOf ?hs ''bright_ti4''))) \<and>
      getProp (records ! j) ''timestamp'' =
        Inr (dateTime env (JStr
          (toStr env (at_index (split_on (CHR '','') (?kept ! j)) (indexOf ?hs ''acq_date'')) @
           '' '' @ take 2 t @ '':'' @ take 2 (drop 2 t))))"
    if j: "j < length records" for j
  proof -
    from j recs(2) have m: "?kept ! j \<in> set ?kept"
      using nth_mem [of j ?kept] by metis
    from time [OF m] obtain t where
      t: "at_index (split_on (CHR '','') (?kept ! j)) (timeIndex ?cols) = JStr t" ..
    from normalizeWildfireLine_fields [OF t, of env "clock j" j]
    obtain r where r: "?f j (?kept ! j) = Inr r"
      and fields:
        "getPath r [P ''location'', P ''lat''] =
           Inr (parseFloat (at_index (split_on (CHR '','') (?kept ! j)) (latIndex ?cols)))"
        "getPath r [P ''location'', P ''lon''] =
           Inr (parseFloat (at_index (split_on (CHR '','') (?kept ! j)) (lonIndex ?cols)))"
        "getProp r ''brightness'' =
           Inr (parseFloat (at_index (split_on (CHR '','') (?kept ! j)) (brightnessIndex ?cols)))"
        "getProp r ''timestamp'' =
           Inr (dateTime env (JStr
             (toStr env (at_index (split_on (CHR '','') (?kept ! j)) (dateIndex ?cols)) @
              '' '' @ take 2 t @ '':'' @ take 2 (drop 2 t))))"
      by blast
    from recs(3) j recs(2) r have "records ! j = r" by simp
    with t fields show ?thesis
      by (simp add: wildfire_columns_of_def)
  qed
  have names: "\<forall>name \<in> set [''latitude'', ''longitude'', ''acq_date'', ''acq_time'',
      ''bright_ti4'', ''confidence''].
      \<exists>n. indexOf ?hs name = Some n \<and> n < length ?hs \<and> ?hs ! n = name"
    using hdr indexOf_member [of _ ?hs] by blast
  have sample: "\<exists>r. normalizeWildfireData env clock (JStr (firms_header @ [newline] @ firms_row))
        = Inr (JArr [r]) \<and>
      getPath r [P ''location'', P ''lat''] = Inr (JNum (21 / 2)) \<and>
      getPath r [P ''location'', P ''lon''] = Inr (JNum (41 / 2)) \<and>
      getProp r ''brightness'' = Inr (JNum (3201 / 10)) \<and>
      getProp r ''timestamp'' = Inr (dateTime env (JStr ''2024-01-01 13:45''))"
    by (simp add: normalizeWildfireData_def split_sample cols_sample wildfire_rows_def
        trim_sample normalizeWildfireLine_def row_sample at_index_def pf1 pf2 pf3
        wildfire_date_text_def substring_def)
  from run recs(2) each names sample show ?thesis
    by blast
qed

lemma header_sample:
  "split_on (CHR '','') firms_header =
     [''latitude'', ''longitude'', ''acq_date'', ''acq_time'', ''bright_ti4'', ''confidence'']"
  by (simp add: firms_header_def)

theorem C9_wildfire_rows_witness:
  "\<exists>records.
     normalizeWildfireData env_ex (\<lambda>i. 0) (JStr (firms_header @ newline # firms_row))
       = Inr (JArr records) \<and>
     length records = 1 \<and>
     getPath (records ! 0) [P ''location'', P ''lat''] = Inr (JNum (21 / 2))"
proof -
  have hdr: "set [''latitude'', ''longitude'', ''acq_date'', ''acq_time'', ''bright_ti4'',
      ''confidence''] \<subseteq> set (split_on (CHR '','') firms_header)"
    by (simp add: header_sample)
  have rows: "\<forall>line \<in> set [firms_row]. trim line \<noteq> [] \<longrightarrow>
      at_index (split_on (CHR '','') line)
        (indexOf (split_on (CHR '','') firms_header) ''acq_time'') \<noteq> JUndefined"
    by (simp add: header_sample row_sample at_index_def)
  from C9_wildfire_rows [OF split_sample hdr rows, of env_ex "\<lambda>i. 0"]
  obtain records where
    r: "normalizeWildfireData env_ex (\<lambda>i. 0) (JStr (firms_header @ newline # firms_row))
        = Inr (JArr records)"
    and l: "length records = length (filter (\<lambda>line. trim line \<noteq> []) [firms_row])"
    and e: "\<forall>j < length records. \<exists>time.
        at_index (split_on (CHR '','') (filter (\<lambda>line. trim line \<noteq> []) [firms_row] ! j))
          (indexOf (split_on (CHR '','') firms_header) ''acq_time'') = JStr time \<and>
        getPath (records ! j) [P ''location'', P ''lat''] =
          Inr (parseFloat
            (at_index (split_on (CHR '','') (filter (\<lambda>line. trim line \<noteq> []) [firms_row] ! j))
               (indexOf (split_on (CHR '','') firms_header) ''latitude'')))"
    by blast
  from l have l1: "length records = 1"
    by (simp add: trim_sample)
  with e have "getPath (records ! 0) [P ''location'', P ''lat''] =
      Inr (parseFloat (at_index (split_on (CHR '','') firms_row)
        (indexOf (split_on (CHR '','') firms_header) ''latitude'')))"
    by (auto simp: trim_sample)
  then have "getPath (records ! 0) [P ''location'', P ''lat''] = Inr (JNum (21 / 2))"
    by (simp add: header_sample row_sample at_index_def pf1)
  with r l1 show ?thesis by blast
qed

subsection \<open>Active flags and the city labels\<close>

lemma seq_simps [simp]:
  "seq f g s = (case f s of (None, s') \<Rightarrow> g s' | (Some e, s') \<Rightarrow> (Some e, s'))"
  by (simp add: seq_def)

lemma map_of_assign_same [simp]: "map_of (assign kvs k v) k = Some v"
  by (induction kvs) auto

lemma map_of_assign_other [simp]: "k' \<noteq> k \<Longrightarrow> map_of (assign kvs k v) k' = map_of kvs k'"
  by (induction kvs) auto

lemma is_active_set_active [simp]:
  "is_active (set_active k v s) k' = (if k' = k then v else is_active s k')"
  by (simp add: is_active_def set_active_def)

text \<open>
  Claim C5 fails on the code in its last part. \<^verbatim>\<open>toggleLayer\<close> flips the flag of the layer
  it is given before it comes to the guard that is meant to keep the city labels from
  being toggled on their own ("Don't allow direct toggling of city labels"): toggling
  \<^verbatim>\<open>cities\<close> inverts what \<open>activeWeatherLayers\<close> holds for \<^verbatim>\<open>cities\<close>, and changes nothing
  else.
\<close>

theorem C5_toggle_cities_flips_flag:
  "is_active (toggleLayer ext ''cities'' s) ''cities'' = (\<not> is_active s ''cities'') \<and>
   toggleLayer ext ''cities'' s =
     s\<lparr>activeWeatherLayers :=
         assign (activeWeatherLayers s) ''cities'' (\<not> is_active s ''cities'')\<rparr>"
  by (simp add: toggleLayer_def try_catch_def step_of_def done_ok_def set_active_def
      is_active_def)

subsection \<open>Enqueueing prefetch work\<close>

lemma active_keys_prefetchQueue [simp]:
  "active_keys (s\<lparr>prefetchQueue := q\<rparr>) = active_keys s"
  by (simp add: active_keys_def is_active_def [abs_def])









subsection \<open>The consumer loop\<close>

lemma run_timers_idle [simp]: "timers s = [] \<Longrightarrow> run_timers n s = s"
  by (cases n) simp_all

lemma run_timers_step: "timers s \<noteq> [] \<Longrightarrow> run_timers (Suc n) s = run_timers n (fire s)"
  by simp

lemma fire_single:
  "timers s = [(due, cb)] \<Longrightarrow>
   fire s = run_callback cb (s\<lparr>clock_ms := max (clock_ms s) due, timers := []\<rparr>)"
  by (simp add: fire_def)







lemma queued_state_run:
  "consumerLog (run_timers 6 (processPrefetchQueue queued_state)) =
     [Started 0 old_task, Settled 200 old_task True,
      Started 300 broken_task, Settled 300 broken_task False,
      Started 400 cities_task, Settled 400 cities_task True] \<and>
   clock_ms (run_timers 6 (processPrefetchQueue queued_state)) = 500"
  by (simp add: queued_state_def initial_state_def processPrefetchQueue_def prefetchTiles_def
      settled_def setTimeout_def fire_def prefetchSimulated_def old_task_def broken_task_def
      cities_task_def tile_layers_def Let_def eval_nat_numeral)


subsection \<open>Transition layers\<close>

lemma getTileMetadata_mapgl [simp]:
  "mapgl (snd (getTileMetadata ext layerId zc s)) = mapgl s"
  by (simp add: getTileMetadata_def Let_def split: option.splits)

lemma stops_proper_iff:
  "(zmax (zoomLevels a) - 1 / 2 < zmin (zoomLevels b) + 1 / 2) = (localness a < localness b)"
  by (cases a; cases b) simp_all

lemma crossfade_sum:
  "interpolate [(x1, 1), (x2, 0)] z + interpolate [(x1, 0), (x2, 1)] z = 1"
  by simp

lemma crossfade_low:
  "z \<le> x1 \<Longrightarrow> interpolate [(x1, 1), (x2, 0)] z = 1 \<and> interpolate [(x1, 0), (x2, 1)] z = 0"
  by simp

lemma crossfade_high:
  "x1 < x2 \<Longrightarrow> x2 \<le> z \<Longrightarrow>
   interpolate [(x1, 1), (x2, 0)] z = 0 \<and> interpolate [(x1, 0), (x2, 1)] z = 1"
  by simp

lemma crossfade_between:
  assumes "x1 < x2" and "x1 \<le> z" and "z \<le> x2"
  shows "interpolate [(x1, 1), (x2, 0)] z = (x2 - z) / (x2 - x1) \<and>
         interpolate [(x1, 0), (x2, 1)] z = (z - x1) / (x2 - x1)"
proof -
  from assms have d: "x2 - x1 \<noteq> 0" by simp
  have "1 - (z - x1) / (x2 - x1) = (x2 - z) / (x2 - x1)"
    using d by (simp add: field_simps)
  then show ?thesis
    using assms by auto
qed

lemma getTileMetadata_again:
  "fst (getTileMetadata ext layerId b (snd (getTileMetadata ext layerId a t))) =
   fst (getTileMetadata ext layerId b t)"
  by (cases a; cases b)
     (simp_all add: getTileMetadata_def metadata_cache_key_def Let_def split: option.splits)

lemma getTileMetadata_reads_tileCache:
  "tileCache t = tileCache s \<Longrightarrow>
   fst (getTileMetadata ext layerId zc t) = fst (getTileMetadata ext layerId zc s)"
  by (simp add: getTileMetadata_def Let_def split: option.splits)

lemma tiles_source_id_eq [simp]:
  "(tiles_source_id layerId a = tiles_source_id layerId b) = (a = b)"
  by (cases a; cases b) (simp_all add: tiles_source_id_def lower_name_def)

lemma createTransitionLayer_accepted:
  assumes acc: "set [tiles_source_id layerId a, tiles_source_id layerId b,
      transitionId layerId a b @ ''-from'', transitionId layerId a b @ ''-to'']
      \<inter> set (rejected (mapgl s)) = {}"
  shows "fst (createTransitionLayer ext layerId a b s) =
      Inr [transitionId layerId a b @ ''-from'', transitionId layerId a b @ ''-to'']"
    and "map_layers (mapgl (snd (createTransitionLayer ext layerId a b s)))
        (transitionId layerId a b @ ''-from'') =
      Some (transition_layer (tiles_source_id layerId a) (fromStops a b))"
    and "map_layers (mapgl (snd (createTransitionLayer ext layerId a b s)))
        (transitionId layerId a b @ ''-to'') =
      Some (transition_layer (tiles_source_id layerId b) (toStops a b))"
    and "map_sources (mapgl (snd (createTransitionLayer ext layerId a b s)))
        (tiles_source_id layerId a) =
      Some (source_of_entry (fst (getTileMetadata ext layerId a s)))"
    and "map_sources (mapgl (snd (createTransitionLayer ext layerId a b s)))
        (tiles_source_id layerId b) =
      Some (source_of_entry (fst (getTileMetadata ext layerId b s)))"
proof -
  let ?tid = "transitionId layerId a b"
  let ?s1 = "removeSource (tiles_source_id layerId b) (removeSource (tiles_source_id layerId a)
      (removeLayer (?tid @ ''-to'') (removeLayer (?tid @ ''-from'') s)))"
  let ?m2 = "getTileMetadata ext layerId a ?s1"
  let ?m3 = "getTileMetadata ext layerId b (snd ?m2)"
  have r: "rejected (mapgl (snd ?m3)) = rejected (mapgl s)"
    by (simp add: removeSource_def removeLayer_def)
  have c: "tileCache ?s1 = tileCache s"
    by (simp add: removeSource_def removeLayer_def)
  have ma: "fst ?m2 = fst (getTileMetadata ext layerId a s)"
    by (rule getTileMetadata_reads_tileCache [OF c])
  have mb: "fst ?m3 = fst (getTileMetadata ext layerId b s)"
    unfolding getTileMetadata_again by (rule getTileMetadata_reads_tileCache [OF c])
  have run: "createTransitionLayer ext layerId a b s =
      then_do (addSource (tiles_source_id layerId a)
                 (source_of_entry (fst (getTileMetadata ext layerId a s))))
        (then_do (addSource (tiles_source_id layerId b)
                    (source_of_entry (fst (getTileMetadata ext layerId b s))))
        (then_do (addLayer (?tid @ ''-from'')
                    (transition_layer (tiles_source_id layerId a) (fromStops a b)))
        (then_do (addLayer (?tid @ ''-to'')
                    (transition_layer (tiles_source_id layerId b) (toStops a b)))
        (ret [?tid @ ''-from'', ?tid @ ''-to''])))) (snd ?m3)"
    unfolding ma [symmetric] mb [symmetric]
    by (simp add: createTransitionLayer_def Let_def split_beta)
  show "fst (createTransitionLayer ext layerId a b s) = Inr [?tid @ ''-from'', ?tid @ ''-to'']"
    using acc r
    by (simp add: run then_do_def addSource_def addLayer_def ret_def)
  show "map_layers (mapgl (snd (createTransitionLayer ext layerId a b s))) (?tid @ ''-from'') =
      Some (transition_layer (tiles_source_id layerId a) (fromStops a b))"
    using acc r
    by (simp add: run then_do_def addSource_def addLayer_def ret_def)
  show "map_layers (mapgl (snd (createTransitionLayer ext layerId a b s))) (?tid @ ''-to'') =
      Some (transition_layer (tiles_source_id layerId b) (toStops a b))"
    using acc r
    by (simp add: run then_do_def addSource_def addLayer_def ret_def)
  show "map_sources (mapgl (snd (createTransitionLayer ext layerId a b s)))
        (tiles_source_id layerId a) =
      Some (source_of_entry (fst (getTileMetadata ext layerId a s)))"
    using acc r
    by (auto simp add: run then_do_def addSource_def addLayer_def ret_def)
  show "map_sources (mapgl (snd (createTransitionLayer ext layerId a b s)))
        (tiles_source_id layerId b) =
      Some (source_of_entry (fst (getTileMetadata ext layerId b s)))"
    using acc r
    by (simp add: run then_do_def addSource_def addLayer_def ret_def)
qed

lemma transition_opacity:
  assumes l: "map_layers (mapgl s') lid = Some (transition_layer src stops)"
  shows "layer_opacity_at s' lid z =
      (if stops \<noteq> [] \<and> ascending stops then Some (interpolate stops z) else None)"
  by (simp add: layer_opacity_at_def l transition_layer_def)

lemma getTileMetadata_uncached:
  assumes "tileCache s layerId (metadata_cache_key layerId zc) = None"
  shows "fst (getTileMetadata ext layerId zc s) =
     Metadata (case tilesEndpoint ext layerId zc of
                 Some m \<Rightarrow> m
               | None \<Rightarrow> fallbackMetadata layerId zc)"
  using assms by (simp add: getTileMetadata_def Let_def split: option.splits)

text \<open>
  The transition from REGIONAL to GLOBAL, as \<^verbatim>\<open>handleZoomChange\<close> asks for it when the zoom
  falls from 5 to 2: the stops of the opacity are \<open>maxZoom(REGIONAL) - 0.5 = 7.5\<close> and
  \<open>minZoom(GLOBAL) + 0.5 = 0.5\<close>, in this order. No zoom lies in \<open>[7.5, 0.5]\<close>, the
  interpolation is no valid expression and the sublayer has no opacity at any zoom.
\<close>

lemma transition_regional_to_global:
  "map_option raster_opacity
     (map_layers (mapgl (snd (createTransitionLayer sample_env ''temperature'' REGIONAL GLOBAL
        busy_state)))
        (transitionId ''temperature'' REGIONAL GLOBAL @ ''-from''))
     = Some (Some (InterpolateLinearZoom [(15 / 2, 1), (1 / 2, 0)])) \<and>
   layer_opacity_at
     (snd (createTransitionLayer sample_env ''temperature'' REGIONAL GLOBAL busy_state))
     (transitionId ''temperature'' REGIONAL GLOBAL @ ''-from'') 2 = None \<and>
   \<not> (\<exists>z::real. 15 / 2 \<le> z \<and> z \<le> 1 / 2)"
proof -
  have acc: "set [tiles_source_id ''temperature'' REGIONAL, tiles_source_id ''temperature'' GLOBAL,
      transitionId ''temperature'' REGIONAL GLOBAL @ ''-from'',
      transitionId ''temperature'' REGIONAL GLOBAL @ ''-to'']
      \<inter> set (rejected (mapgl busy_state)) = {}"
    by (simp add: busy_state_def initial_state_def empty_map_def)
  note l = createTransitionLayer_accepted(2) [OF acc, of sample_env]
  have s: "fromStops REGIONAL GLOBAL = [(15 / 2, 1), (1 / 2, 0)]"
    by (simp add: fromStops_def)
  show ?thesis
    by (simp add: l transition_opacity [OF l] s transition_layer_def)
qed

text \<open>
  Claim C4 holds for a change to a more local category and fails, by a slip of the code,
  for every other change. For every layer and every category change from \<open>A\<close> to \<open>B\<close> for
  which the renderer accepts the two sources and the two sublayers, the transition engine
  adds a source with the tiles of the metadata for \<open>A\<close> and one with those for \<open>B\<close> (the
  cached entry, else what the server answers, else the fallback), a sublayer on the first
  whose opacity has the stops \<open>maxZoom(A) - 0.5\<close> with output 1 and \<open>minZoom(B) + 0.5\<close>
  with output 0, and a sublayer on the second with the outputs 0 and 1 at the same stops.
  When \<open>B\<close> is more local than \<open>A\<close>, which is when the first stop lies below the second,
  the two opacities are defined at every zoom and sum to 1; they are (1, 0) up to the
  first stop and (0, 1) from the second stop on, and linear in between; from GLOBAL to
  REGIONAL the range is \<open>[2.5, 3.5]\<close> and the opacities there are \<open>3.5 - z\<close> and
  \<open>z - 2.5\<close>. When \<open>B\<close> is not more local than \<open>A\<close>, the stops do not ascend and neither
  sublayer has an opacity at any zoom: there is no crossfade.
\<close>

theorem C4_transition_crossfade:
  assumes acc: "set [tiles_source_id layerId a, tiles_source_id layerId b,
      transitionId layerId a b @ ''-from'', transitionId layerId a b @ ''-to'']
      \<inter> set (rejected (mapgl s)) = {}"
  and res: "createTransitionLayer ext layerId a b s = (r, s')"
  shows
    "r = Inr [transitionId layerId a b @ ''-from'', transitionId layerId a b @ ''-to''] \<and>
     map_layers (mapgl s') (transitionId layerId a b @ ''-from'') =
       Some (transition_layer (tiles_source_id layerId a)
         [(zmax (zoomLevels a) - 1 / 2, 1), (zmin (zoomLevels b) + 1 / 2, 0)]) \<and>
     map_layers (mapgl s') (transitionId layerId a b @ ''-to'') =
       Some (transition_layer (tiles_source_id layerId b)
         [(zmax (zoomLevels a) - 1 / 2, 0), (zmin (zoomLevels b) + 1 / 2, 1)]) \<and>
     map_sources (mapgl s') (tiles_source_id layerId a) =
       Some (source_of_entry (fst (getTileMetadata ext layerId a s))) \<and>
     map_sources (mapgl s') (tiles_source_id layerId b) =
       Some (source_of_entry (fst (getTileMetadata ext layerId b s))) \<and>
     (\<forall>c. tileCache s layerId (metadata_cache_key layerId c) = None \<longrightarrow>
        fst (getTileMetadata ext layerId c s) =
          Metadata (case tilesEndpoint ext layerId c of
                      Some m \<Rightarrow> m
                    | None \<Rightarrow> fallbackMetadata layerId c)) \<and>
     ((zmax (zoomLevels a) - 1 / 2 < zmin (zoomLevels b) + 1 / 2) = (localness a < localness b)) \<and>
     (localness a < localness b \<longrightarrow>
        (\<forall>z. \<exists>p q.
           layer_opacity_at s' (transitionId layerId a b @ ''-from'') z = Some p \<and>
           layer_opacity_at s' (transitionId layerId a b @ ''-to'') z = Some q \<and>
           p + q = 1 \<and>
           (z \<le> zmax (zoomLevels a) - 1 / 2 \<longrightarrow> p = 1 \<and> q = 0) \<and>
           (zmin (zoomLevels b) + 1 / 2 \<le> z \<longrightarrow> p = 0 \<and> q = 1) \<and>
           (zmax (zoomLevels a) - 1 / 2 \<le> z \<and> z \<le> zmin (zoomLevels b) + 1 / 2 \<longrightarrow>
              p = (zmin (zoomLevels b) + 1 / 2 - z) /
                  (zmin (zoomLevels b) + 1 / 2 - (zmax (zoomLevels a) - 1 / 2)) \<and>
              q = (z - (zmax (zoomLevels a) - 1 / 2)) /
                  (zmin (zoomLevels b) + 1 / 2 - (zmax (zoomLevels a) - 1 / 2))))) \<and>
     (a = GLOBAL \<and> b = REGIONAL \<longrightarrow>
        (\<forall>z. 5 / 2 \<le> z \<and> z \<le> 7 / 2 \<longrightarrow>
           layer_opacity_at s' (transitionId layerId a b @ ''-from'') z = Some (7 / 2 - z) \<and>
           layer_opacity_at s' (transitionId layerId a b @ ''-to'') z = Some (z - 5 / 2))) \<and>
     (\<not> localness a < localness b \<longrightarrow>
        (\<forall>z. layer_opacity_at s' (transitionId layerId a b @ ''-from'') z = None \<and>
             layer_opacity_at s' (transitionId layerId a b @ ''-to'') z = None))"
proof -
  let ?x1 = "zmax (zoomLevels a) - 1 / 2"
  let ?x2 = "zmin (zoomLevels b) + 1 / 2"
  let ?from = "transitionId layerId a b @ ''-from''"
  let ?to = "transitionId layerId a b @ ''-to''"
  from res have r: "fst (createTransitionLayer ext layerId a b s) = r"
    and s': "snd (createTransitionLayer ext layerId a b s) = s'"
    by simp_all
  note built = createTransitionLayer_accepted [OF acc, of ext]
  have ids: "r = Inr [?from, ?to]"
    using built(1) r by simp
  have lf: "map_layers (mapgl s') ?from =
      Some (transition_layer (tiles_source_id layerId a) [(?x1, 1), (?x2, 0)])"
    using built(2) s' by (simp add: fromStops_def)
  have lt: "map_layers (mapgl s') ?to =
      Some (transition_layer (tiles_source_id layerId b) [(?x1, 0), (?x2, 1)])"
    using built(3) s' by (simp add: toStops_def)
  have sa: "map_sources (mapgl s') (tiles_source_id layerId a) =
       Some (source_of_entry (fst (getTileMetadata ext layerId a s)))"
    using built(4) s' by simp
  have sb: "map_sources (mapgl s') (tiles_source_id layerId b) =
       Some (source_of_entry (fst (getTileMetadata ext layerId b s)))"
    using built(5) s' by simp
  have fade: "\<exists>p q.
      layer_opacity_at s' ?from z = Some p \<and> layer_opacity_at s' ?to z = Some q \<and>
      p + q = 1 \<and>
      (z \<le> ?x1 \<longrightarrow> p = 1 \<and> q = 0) \<and>
      (?x2 \<le> z \<longrightarrow> p = 0 \<and> q = 1) \<and>
      (?x1 \<le> z \<and> z \<le> ?x2 \<longrightarrow>
         p = (?x2 - z) / (?x2 - ?x1) \<and> q = (z - ?x1) / (?x2 - ?x1))"
    if up: "localness a < localness b" for z
  proof -
    from up have lt12: "?x1 < ?x2"
      using stops_proper_iff [of a b] by simp
    have of: "layer_opacity_at s' ?from z = Some (interpolate [(?x1, 1), (?x2, 0)] z)"
      using lt12 by (simp add: transition_opacity [OF lf])
    have ot: "layer_opacity_at s' ?to z = Some (interpolate [(?x1, 0), (?x2, 1)] z)"
      using lt12 by (simp add: transition_opacity [OF lt])
    show ?thesis
      using of ot crossfade_sum [of ?x1 ?x2 z] crossfade_low [of z ?x1 ?x2]
        crossfade_high [OF lt12, of z] crossfade_between [OF lt12, of z]
      by blast
  qed
  have gr: "layer_opacity_at s' ?from z = Some (7 / 2 - z) \<and>
      layer_opacity_at s' ?to z = Some (z - 5 / 2)"
    if ab: "a = GLOBAL \<and> b = REGIONAL" and z: "5 / 2 \<le> z \<and> z \<le> 7 / 2" for z
  proof -
    have "layer_opacity_at s' ?from z = Some (interpolate [(5 / 2, 1), (7 / 2, 0)] z)"
      using lf ab by (simp add: layer_opacity_at_def transition_layer_def)
    moreover have "layer_opacity_at s' ?to z = Some (interpolate [(5 / 2, 0), (7 / 2, 1)] z)"
      using lt ab by (simp add: layer_opacity_at_def transition_layer_def)
    moreover have "interpolate [(5 / 2, 1), (7 / 2, 0)] z = 7 / 2 - z"
      using z by auto
    moreover have "interpolate [(5 / 2, 0), (7 / 2, 1)] z = z - 5 / 2"
      using z by auto
    ultimately show ?thesis by simp
  qed
  have none: "layer_opacity_at s' ?from z = None \<and> layer_opacity_at s' ?to z = None"
    if down: "\<not> localness a < localness b" for z
  proof -
    from down have "\<not> ?x1 < ?x2"
      using stops_proper_iff [of a b] by simp
    then show ?thesis
      by (simp add: transition_opacity [OF lf] transition_opacity [OF lt])
  qed
  from ids lf lt sa sb getTileMetadata_uncached [of s layerId _ ext]
    stops_proper_iff [of a b] fade gr none
  show ?thesis
    by blast
qed

theorem C4_transition_crossfade_witness:
  "layer_opacity_at
     (snd (createTransitionLayer sample_env ''temperature'' GLOBAL REGIONAL busy_state))
     (transitionId ''temperature'' GLOBAL REGIONAL @ ''-from'') 3 = Some (1 / 2) \<and>
   layer_opacity_at
     (snd (createTransitionLayer sample_env ''temperature'' GLOBAL REGIONAL busy_state))
     (transitionId ''temperature'' GLOBAL REGIONAL @ ''-to'') 3 = Some (1 / 2) \<and>
   layer_opacity_at
     (snd (createTransitionLayer sample_env ''temperature'' GLOBAL REGIONAL busy_state))
     (transitionId ''temperature'' GLOBAL REGIONAL @ ''-from'') (5 / 2) = Some 1 \<and>
   layer_opacity_at
     (snd (createTransitionLayer sample_env ''temperature'' GLOBAL REGIONAL busy_state))
     (transitionId ''temperature'' GLOBAL REGIONAL @ ''-to'') (7 / 2) = Some 1 \<and>
   map_option source_tiles
     (map_sources
        (mapgl (snd (createTransitionLayer sample_env ''temperature'' GLOBAL REGIONAL busy_state)))
        ''temperature-global-tiles'') =
     Some [Some (''https://tile.openweathermap.org/map/temp_new/{z}/{x}/{y}.png?appid='' @ owm_appid)] \<and>
   map_option source_tiles
     (map_sources
        (mapgl (snd (createTransitionLayer sample_env ''temperature'' GLOBAL REGIONAL busy_state)))
        ''temperature-regional-tiles'') =
     Some [Some (''https://maps.openweathermap.org/maps/2.0/weather/TA2/{z}/{x}/{y}?appid='' @
                 owm_appid @ ''&fill_bound=true'')] \<and>
   layer_opacity_at
     (snd (createTransitionLayer sample_env ''temperature'' REGIONAL GLOBAL busy_state))
     (transitionId ''temperature'' REGIONAL GLOBAL @ ''-to'') 2 = None"
proof -
  let ?res = "createTransitionLayer sample_env ''temperature'' GLOBAL REGIONAL busy_state"
  let ?rev = "createTransitionLayer sample_env ''temperature'' REGIONAL GLOBAL busy_state"
  have acc: "set [tiles_source_id ''temperature'' GLOBAL, tiles_source_id ''temperature'' REGIONAL,
      transitionId ''temperature'' GLOBAL REGIONAL @ ''-from'',
      transitionId ''temperature'' GLOBAL REGIONAL @ ''-to'']
      \<inter> set (rejected (mapgl busy_state)) = {}"
    by (simp add: busy_state_def initial_state_def empty_map_def)
  have acc': "set [tiles_source_id ''temperature'' REGIONAL, tiles_source_id ''temperature'' GLOBAL,
      transitionId ''temperature'' REGIONAL GLOBAL @ ''-from'',
      transitionId ''temperature'' REGIONAL GLOBAL @ ''-to'']
      \<inter> set (rejected (mapgl busy_state)) = {}"
    by (simp add: busy_state_def initial_state_def empty_map_def)
  have res: "?res = (fst ?res, snd ?res)" and res2: "?rev = (fst ?rev, snd ?rev)"
    by simp_all
  note up = C4_transition_crossfade [OF acc res]
  note down = C4_transition_crossfade [OF acc' res2]
  from up have g: "\<forall>z. 5 / 2 \<le> z \<and> z \<le> 7 / 2 \<longrightarrow>
      layer_opacity_at (snd ?res) (transitionId ''temperature'' GLOBAL REGIONAL @ ''-from'') z
        = Some (7 / 2 - z) \<and>
      layer_opacity_at (snd ?res) (transitionId ''temperature'' GLOBAL REGIONAL @ ''-to'') z
        = Some (z - 5 / 2)"
    by blast
  have m: "fst (getTileMetadata sample_env ''temperature'' c busy_state) =
      Metadata (fallbackMetadata ''temperature'' c)" for c
    by (simp add: getTileMetadata_def Let_def sample_env_def busy_state_def initial_state_def)
  from up have sa: "map_sources (mapgl (snd ?res)) (tiles_source_id ''temperature'' GLOBAL) =
       Some (source_of_entry (Metadata (fallbackMetadata ''temperature'' GLOBAL)))"
    and sb: "map_sources (mapgl (snd ?res)) (tiles_source_id ''temperature'' REGIONAL) =
       Some (source_of_entry (Metadata (fallbackMetadata ''temperature'' REGIONAL)))"
    unfolding m by blast+
  from down have n: "layer_opacity_at (snd ?rev)
      (transitionId ''temperature'' REGIONAL GLOBAL @ ''-to'') 2 = None"
    by simp
  have ta: "map_option source_tiles (map_sources (mapgl (snd ?res)) ''temperature-global-tiles'') =
     Some [Some (''https://tile.openweathermap.org/map/temp_new/{z}/{x}/{y}.png?appid='' @ owm_appid)]"
    using sa by (simp add: tiles_source_id_def lower_name_def fallbackMetadata_def baseUrls_def)
  have tb: "map_option source_tiles (map_sources (mapgl (snd ?res)) ''temperature-regional-tiles'') =
     Some [Some (''https://maps.openweathermap.org/maps/2.0/weather/TA2/{z}/{x}/{y}?appid='' @
                 owm_appid @ ''&fill_bound=true'')]"
    using sb by (simp add: tiles_source_id_def lower_name_def fallbackMetadata_def baseUrls_def)
  from g [THEN spec, of 3] g [THEN spec, of "5 / 2"] g [THEN spec, of "7 / 2"] ta tb n
  show ?thesis by simp
qed

subsection \<open>Refreshing a layer\<close>

lemma processPrefetchQueue_frame [simp]:
  "weatherLayers (processPrefetchQueue s) = weatherLayers s"
  "mapgl (processPrefetchQueue s) = mapgl s"
  by (simp_all add: processPrefetchQueue_def prefetchTiles_def settled_def setTimeout_def Let_def
      split: list.splits option.splits)

lemma queueTilePrefetch_frame [simp]:
  "weatherLayers (snd (queueTilePrefetch s)) = weatherLayers s"
  "mapgl (snd (queueTilePrefetch s)) = mapgl s"
  by (simp_all add: queueTilePrefetch_def Let_def split: option.splits)

lemma fold_setVisibility_weatherLayers [simp]:
  "weatherLayers (fold (setVisibilityIfPresent v) xs s) = weatherLayers s"
  by (induction xs arbitrary: s) (simp_all add: setVisibilityIfPresent_def split: option.splits)





lemma fold_removeLayerAndSource_frame [simp]:
  "weatherLayers (fold removeLayerAndSource xs s) = weatherLayers s"
  "rejected (mapgl (fold removeLayerAndSource xs s)) = rejected (mapgl s)"
  "map_zoom (mapgl (fold removeLayerAndSource xs s)) = map_zoom (mapgl s)"
  by (induction xs arbitrary: s)
     (simp_all add: removeLayerAndSource_def removeLayer_def removeSource_def)


lemma cleanUpLayers_frame [simp]:
  "weatherLayers (cleanUpLayers layerId s) = weatherLayers s"
  "rejected (mapgl (cleanUpLayers layerId s)) = rejected (mapgl s)"
  "map_zoom (mapgl (cleanUpLayers layerId s)) = map_zoom (mapgl s)"
  by (simp_all add: cleanUpLayers_def split: option.splits)






lemma queueTilePrefetch_returns:
  "vp_bounds (currentViewport s) \<noteq> None \<Longrightarrow> fst (queueTilePrefetch s) = None"
  by (simp add: queueTilePrefetch_def Let_def split: option.splits)

lemma fetchLayerData_temperature:
  "fst (fetchLayerData ext ''temperature'' (Some zc) s) = None"
  "weatherLayers (snd (fetchLayerData ext ''temperature'' (Some zc) s)) =
     weatherLayers (createTemperatureLayer (Some zc) (set_active ''temperature'' True s))"
  "mapgl (snd (fetchLayerData ext ''temperature'' (Some zc) s)) =
     mapgl (createTemperatureLayer (Some zc) (set_active ''temperature'' True s))"
  by (simp_all add: fetchLayerData_def Let_def seq_def step_of_def queueTilePrefetch_returns
      split: prod.splits option.splits)


lemma set_active_frame [simp]:
  "weatherLayers (set_active k v s) = weatherLayers s"
  "mapgl (set_active k v s) = mapgl s"
  by (simp_all add: set_active_def)






lemma processPrefetchQueue_pendingFetches [simp]:
  "pendingFetches (processPrefetchQueue s) = pendingFetches s"
  by (simp add: processPrefetchQueue_def prefetchTiles_def settled_def setTimeout_def Let_def
      split: list.splits option.splits)

lemma queueTilePrefetch_pendingFetches [simp]:
  "pendingFetches (snd (queueTilePrefetch s)) = pendingFetches s"
  by (simp add: queueTilePrefetch_def Let_def split: option.splits)





lemma fold_removeLayer_frame [simp]:
  "weatherLayers (fold removeLayer xs s) = weatherLayers s"
  "rejected (mapgl (fold removeLayer xs s)) = rejected (mapgl s)"
  by (induction xs arbitrary: s) (simp_all add: removeLayer_def)

lemma removeLocationMarker_frame [simp]:
  "weatherLayers (removeLocationMarker s) = weatherLayers s"
  "rejected (mapgl (removeLocationMarker s)) = rejected (mapgl s)"
  by (simp_all add: removeLocationMarker_def removeSource_def split: option.splits)


lemma setVisibilityIfPresent_frame [simp]:
  "weatherLayers (setVisibilityIfPresent v x s) = weatherLayers s"
  "activeWeatherLayers (setVisibilityIfPresent v x s) = activeWeatherLayers s"
  by (simp_all add: setVisibilityIfPresent_def split: option.splits)


subsection \<open>The city labels follow the temperature layer\<close>

lemma fold_setVisibility_active [simp]:
  "activeWeatherLayers (fold (setVisibilityIfPresent v) xs s) = activeWeatherLayers s"
  by (induction xs arbitrary: s) simp_all

lemma setRecordVisibility_active [simp]:
  "activeWeatherLayers (setRecordVisibility v layerId s) = activeWeatherLayers s"
  by (simp add: setRecordVisibility_def Let_def split: option.splits)

lemma fold_removeLayer_active [simp]:
  "activeWeatherLayers (fold removeLayer xs s) = activeWeatherLayers s"
  by (induction xs arbitrary: s) (simp_all add: removeLayer_def)

lemma removeLocationMarker_active [simp]:
  "activeWeatherLayers (removeLocationMarker s) = activeWeatherLayers s"
  by (simp add: removeLocationMarker_def removeSource_def split: option.splits)

lemma processPrefetchQueue_active [simp]:
  "activeWeatherLayers (processPrefetchQueue s) = activeWeatherLayers s"
  by (simp add: processPrefetchQueue_def prefetchTiles_def settled_def setTimeout_def Let_def
      split: list.splits option.splits)

lemma queueTilePrefetch_active [simp]:
  "activeWeatherLayers (snd (queueTilePrefetch s)) = activeWeatherLayers s"
  by (simp add: queueTilePrefetch_def Let_def split: option.splits)

lemma initCityLabels_keeps_cities:
  assumes "is_active s ''cities''"
  shows "is_active (initCityLabels s) ''cities''"
proof -
  let ?u = "removeSource ''city-labels-source''
      (fold removeLayer [''city-labels'', ''city-points'', ''city-temp-labels'', ''city-name-labels'']
         (removeLocationMarker s))"
  have u: "activeWeatherLayers ?u = activeWeatherLayers s"
    by (simp add: removeSource_def removeLayer_def)
  have "activeWeatherLayers
      (snd (seq (addSource ''city-labels-source'' geojson_source)
             (addLayer ''city-labels'' (other_layer ''symbol'' ''city-labels-source'')) t))
      = activeWeatherLayers t" for t
    by (simp add: addSource_def addLayer_def)
  from this [of ?u] u assms show ?thesis
    unfolding initCityLabels_def
    by (cases "seq (addSource ''city-labels-source'' geojson_source)
             (addLayer ''city-labels'' (other_layer ''symbol'' ''city-labels-source'')) ?u")
       (auto simp add: is_active_def set_active_def simp del: seq_simps split: option.splits)
qed

lemma showOrInitCities_keeps_cities:
  assumes "is_active s ''cities''"
  shows "is_active (showOrInitCities s) ''cities''"
  using assms initCityLabels_keeps_cities [OF assms]
  by (simp add: showOrInitCities_def is_active_def)

text \<open>
  After \<^verbatim>\<open>showLayer('temperature')\<close> the flag of \<^verbatim>\<open>cities\<close> is set, whatever the state
  before and whether or not the city labels could be built; after
  \<^verbatim>\<open>hideLayer('temperature')\<close> it is not set.
\<close>

lemma showLayer_temperature_activates_cities:
  "is_active (snd (showLayer ext ''temperature'' s)) ''cities''"
proof -
  let ?A = "if already_created s ''temperature''
      then step_of (setRecordVisibility Visible ''temperature'')
      else fetchLayerData ext ''temperature'' (Some (getZoomCategory (map_zoom (mapgl s))))"
  have "fst (?A s) = None"
    by (simp add: step_of_def fetchLayerData_temperature(1))
  then obtain t1 where a: "?A s = (None, t1)"
    by (metis prod.collapse)
  let ?t3 = "updateCityLabelsVisibility
      (showOrInitCities (set_active ''cities'' True (set_active ''temperature'' True t1)))"
  have c: "is_active ?t3 ''cities''"
    by (simp add: updateCityLabelsVisibility_def showOrInitCities_keeps_cities)
  have "activeWeatherLayers (snd (showLayer ext ''temperature'' s)) = activeWeatherLayers ?t3"
    using a by (simp add: showLayer_def step_of_def)
  with c show ?thesis
    by (simp add: is_active_def)
qed


subsection \<open>Refreshing a layer: the visibility\<close>




lemma hideTransitions_frame [simp]:
  "weatherLayers (hideTransitions layerId s) = weatherLayers s"
  by (simp add: hideTransitions_def split: option.splits)

lemma fold_setVisibility_rejected [simp]:
  "rejected (mapgl (fold (setVisibilityIfPresent v) xs s)) = rejected (mapgl s)"
  by (induction xs arbitrary: s) (simp_all add: setVisibilityIfPresent_def split: option.splits)

lemma setRecordVisibility_rejected [simp]:
  "rejected (mapgl (setRecordVisibility v layerId s)) = rejected (mapgl s)"
  by (simp add: setRecordVisibility_def Let_def split: option.splits)








end
